theory Spec2Isabelle
  imports Main "HOL-Library.Word" "HOL-Library.Monad_Syntax"
begin

section \<open>Go values used by the provider\<close>

text \<open>
  A Go \<open>error\<close> is an interface value: a dynamic type (its classification) and the text
  that \<open>Error()\<close> returns. The kinds are the five of the specification's taxonomy and
  \<open>errorString\<close>, the type of every error made by \<open>fmt.Errorf\<close> without \<open>%w\<close>.
  A nil error is \<open>None\<close> of \<open>error option\<close>.
\<close>

datatype error_kind =
  ValidationError | TransportFailure | Timeout | RemoteScriptFailure | DecodeFailure
  | errorString

datatype error = GoError error_kind string

fun kind :: "error \<Rightarrow> error_kind" where
  "kind (GoError k m) = k"

fun Error :: "error \<Rightarrow> string" where
  "Error (GoError k m) = m"

text \<open>\<open>fmt.Errorf\<close> with no \<open>%w\<close> verb: a new error that holds only the formatted text.\<close>

definition fmt_Errorf :: "string \<Rightarrow> error" where
  "fmt_Errorf s = GoError errorString s"

text \<open>
  \<open>strconv.Quote\<close>, which formats the verbs \<open>%q\<close> and \<open>%#v\<close> of a string, byte by byte:
  the quote and the backslash are escaped, the control characters are written as Go
  escapes, every other byte is kept (bytes from 0x80 on are taken to belong to printable
  UTF-8 sequences).
\<close>

definition hex_digit :: "nat \<Rightarrow> char" where
  "hex_digit n = (''0123456789abcdef'') ! (n mod 16)"

definition quote_byte :: "char \<Rightarrow> string" where
  "quote_byte c =
     (let n = (of_char c :: nat) in
      if n = 0x22 \<or> n = 0x5C then [CHR 0x5C, c]
      else if n = 7 then [CHR 0x5C, CHR ''a'']
      else if n = 8 then [CHR 0x5C, CHR ''b'']
      else if n = 12 then [CHR 0x5C, CHR ''f'']
      else if n = 10 then [CHR 0x5C, CHR ''n'']
      else if n = 13 then [CHR 0x5C, CHR ''r'']
      else if n = 9 then [CHR 0x5C, CHR ''t'']
      else if n = 11 then [CHR 0x5C, CHR ''v'']
      else if n < 0x20 \<or> n = 0x7F then [CHR 0x5C, CHR ''x'', hex_digit (n div 16), hex_digit n]
      else [c])"

definition strconv_Quote :: "string \<Rightarrow> string" where
  "strconv_Quote s = [CHR 0x22] @ concat (map quote_byte s) @ [CHR 0x22]"

subsection \<open>Diagnostics of the plugin SDK\<close>

datatype Severity = diag_Error | diag_Warning

record Diagnostic =
  Severity :: Severity
  Summary :: string
  Detail :: string

type_synonym Diagnostics = "Diagnostic list"

text \<open>
  \<open>diag.FromErr\<close> of a non-nil error and \<open>diag.Errorf\<close>: one diagnostic of severity
  error, whose summary is the text of the error, with no detail (and no attribute path,
  which the record leaves out).
\<close>

definition diag_FromErr :: "error \<Rightarrow> Diagnostics" where
  "diag_FromErr err = [\<lparr>Severity = diag_Error, Summary = Error err, Detail = []\<rparr>]"

definition diag_Errorf :: "string \<Rightarrow> Diagnostics" where
  "diag_Errorf s = [\<lparr>Severity = diag_Error, Summary = s, Detail = []\<rparr>]"

definition HasError :: "Diagnostics \<Rightarrow> bool" where
  "HasError ds = list_ex (\<lambda>x. Severity x = diag_Error) ds"

subsection \<open>\<open>schema.ResourceData\<close>\<close>

text \<open>
  The SDK's \<open>ResourceData\<close> carries the schema of its resource, the identifier, the
  is-new flag, the prior state and the merged view of configuration, state and values
  written by \<open>Set\<close>. Attribute values are booleans, Go \<open>int\<close>s and strings.
\<close>

datatype ValueType = TypeBool | TypeInt | TypeString

datatype Value = VBool bool | VInt int | VString string

fun type_of :: "Value \<Rightarrow> ValueType" where
  "type_of (VBool b) = TypeBool"
| "type_of (VInt i) = TypeInt"
| "type_of (VString s) = TypeString"

fun zero_value :: "ValueType \<Rightarrow> Value" where
  "zero_value TypeBool = VBool False"
| "zero_value TypeInt = VInt 0"
| "zero_value TypeString = VString []"

record ResourceData =
  rd_schema :: "string \<rightharpoonup> ValueType"
  rd_Id :: string
  rd_IsNewResource :: bool
  rd_state :: "string \<rightharpoonup> Value"
  rd_attrs :: "string \<rightharpoonup> Value"

text \<open>
  Reading through the schema: a key the schema does not declare reads as nil (\<open>None\<close>),
  a declared key reads as the stored value, or as the zero value of its type when nothing
  (or nothing of that type) is stored.
\<close>

definition read_field :: "(string \<rightharpoonup> ValueType) \<Rightarrow> (string \<rightharpoonup> Value) \<Rightarrow> string \<Rightarrow> Value option" where
  "read_field sch m key =
     (case sch key of
        None \<Rightarrow> None
      | Some t \<Rightarrow>
          (case m key of
             None \<Rightarrow> Some (zero_value t)
           | Some v \<Rightarrow> if type_of v = t then Some v else Some (zero_value t)))"

definition d_Get :: "ResourceData \<Rightarrow> string \<Rightarrow> Value option" where
  "d_Get d key = read_field (rd_schema d) (rd_attrs d) key"

text \<open>\<open>GetOk\<close>: the value, and whether it is set to something other than the zero value.\<close>

definition d_GetOk :: "ResourceData \<Rightarrow> string \<Rightarrow> Value option \<times> bool" where
  "d_GetOk d key =
     (case d_Get d key of
        None \<Rightarrow> (None, False)
      | Some v \<Rightarrow> (Some v, v \<noteq> zero_value (type_of v)))"

text \<open>\<open>HasChange\<close>: the value of the prior state differs from the current one.\<close>

definition d_HasChange :: "ResourceData \<Rightarrow> string \<Rightarrow> bool" where
  "d_HasChange d key = (read_field (rd_schema d) (rd_state d) key \<noteq> d_Get d key)"

text \<open>
  The type assertions \<open>v.(string)\<close>, \<open>v.(int)\<close>, \<open>v.(bool)\<close>: \<open>None\<close> is the panic of an
  assertion that fails.
\<close>

fun as_string :: "Value option \<Rightarrow> string option" where
  "as_string (Some (VString s)) = Some s"
| "as_string _ = None"

fun as_int :: "Value option \<Rightarrow> int option" where
  "as_int (Some (VInt i)) = Some i"
| "as_int _ = None"

fun as_bool :: "Value option \<Rightarrow> bool option" where
  "as_bool (Some (VBool b)) = Some b"
| "as_bool _ = None"

text \<open>
  \<open>Set\<close> writes through the schema: a key that the schema does not declare is an invalid
  address, and a value that does not decode to the declared type is rejected; in both
  cases nothing is written.
\<close>

definition d_Set :: "ResourceData \<Rightarrow> string \<Rightarrow> Value \<Rightarrow> error + ResourceData" where
  "d_Set d key v =
     (case rd_schema d key of
        None \<Rightarrow> Inl (fmt_Errorf (''Invalid address to set: []string{'' @ strconv_Quote key @ ''}''))
      | Some t \<Rightarrow>
          if type_of v = t then Inr (d\<lparr>rd_attrs := (rd_attrs d)(key \<mapsto> v)\<rparr>)
          else Inl (fmt_Errorf (key @ '': value does not decode to the type of the schema'')))"

definition d_SetId :: "ResourceData \<Rightarrow> string \<Rightarrow> ResourceData" where
  "d_SetId d v = d\<lparr>rd_Id := v\<rparr>"

section \<open>The client interface (package api)\<close>

text \<open>
  The source uses the type \<open>VhdType\<close>, its constant \<open>VhdType_Differencing\<close>, the table
  \<open>VhdType_name\<close> and the function \<open>ToVhdType\<close> of package api, whose declarations are
  not among the source files: they are parameters of the handlers, collected in a record.
  Of the structure \<open>Vhd\<close> the handlers read the fields below; sizes are unsigned 64-bit
  and 32-bit integers, as the conversions in the create handler have them.
\<close>

type_synonym VhdType = int

record api_pkg =
  VhdType_Differencing :: VhdType
  VhdType_name :: "VhdType \<Rightarrow> string"
  ToVhdType :: "string \<Rightarrow> VhdType"

record Vhd =
  Vhd_Path :: string
  Vhd_BlockSize :: "32 word"
  Vhd_LogicalSectorSize :: "32 word"
  Vhd_PhysicalSectorSize :: "32 word"
  Vhd_ParentPath :: string
  Vhd_Size :: "64 word"
  Vhd_VhdType :: VhdType

record VhdExists =
  Exists :: bool

record Dvd =
  Dvd_Path :: string
  Dvd_Ip :: string

definition zero_Vhd :: Vhd where
  "zero_Vhd = \<lparr>Vhd_Path = [], Vhd_BlockSize = 0, Vhd_LogicalSectorSize = 0,
     Vhd_PhysicalSectorSize = 0, Vhd_ParentPath = [], Vhd_Size = 0, Vhd_VhdType = 0\<rparr>"

definition zero_Dvd :: Dvd where
  "zero_Dvd = \<lparr>Dvd_Path = [], Dvd_Ip = []\<rparr>"

text \<open>
  The remote host changes under the calls, so what a method of the client answers may
  depend on every call made before it: each method takes the history of calls, and a
  handler returns the history extended by the calls it made, in order.
\<close>

datatype call =
  Call_VhdExists string
  | Call_GetVhd string
  | Call_CreateOrUpdateVhd string string string int VhdType string "64 word" "32 word" "32 word" "32 word"
  | Call_ResizeVhd string "64 word"
  | Call_DeleteVhd string
  | Call_CreateDvd string string
  | Call_DeleteDvd string
  | Call_GetDvd string string

type_synonym history = "call list"

record Client =
  CreateDvd :: "history \<Rightarrow> string \<Rightarrow> string \<Rightarrow> error option"
  DeleteDvd :: "history \<Rightarrow> string \<Rightarrow> error option"
  GetDvd :: "history \<Rightarrow> string \<Rightarrow> string \<Rightarrow> Dvd \<times> error option"
  VhdExists :: "history \<Rightarrow> string \<Rightarrow> VhdExists \<times> error option"
  GetVhd :: "history \<Rightarrow> string \<Rightarrow> Vhd \<times> error option"
  CreateOrUpdateVhd :: "history \<Rightarrow> string \<Rightarrow> string \<Rightarrow> string \<Rightarrow> int \<Rightarrow> VhdType \<Rightarrow> string
     \<Rightarrow> 64 word \<Rightarrow> 32 word \<Rightarrow> 32 word \<Rightarrow> 32 word \<Rightarrow> error option"
  ResizeVhd :: "history \<Rightarrow> string \<Rightarrow> 64 word \<Rightarrow> error option"
  DeleteVhd :: "history \<Rightarrow> string \<Rightarrow> error option"

text \<open>The error, if any, that the client answers to a call made after the history \<open>h\<close>.\<close>

fun call_err :: "Client \<Rightarrow> history \<Rightarrow> call \<Rightarrow> error option" where
  "call_err c h (Call_VhdExists p) = snd (VhdExists c h p)"
| "call_err c h (Call_GetVhd p) = snd (GetVhd c h p)"
| "call_err c h (Call_CreateOrUpdateVhd p s sv sd t pp sz bs ls ps) =
     CreateOrUpdateVhd c h p s sv sd t pp sz bs ls ps"
| "call_err c h (Call_ResizeVhd p sz) = ResizeVhd c h p sz"
| "call_err c h (Call_DeleteVhd p) = DeleteVhd c h p"
| "call_err c h (Call_CreateDvd p ip) = CreateDvd c h p ip"
| "call_err c h (Call_DeleteDvd p) = DeleteDvd c h p"
| "call_err c h (Call_GetDvd p ip) = snd (GetDvd c h p ip)"

section \<open>The handlers (package provider)\<close>

text \<open>
  A handler returns its diagnostics (\<open>[]\<close> is the nil of a success), the resource data
  as it left it and the history of client calls; \<open>None\<close> is a panic.
\<close>

type_synonym outcome = "(Diagnostics \<times> ResourceData \<times> history) option"

subsection \<open>The schemas\<close>

definition dataSourceHyperVDvd_Schema :: "string \<rightharpoonup> ValueType" where
  "dataSourceHyperVDvd_Schema = [''path'' \<mapsto> TypeString, ''source'' \<mapsto> TypeString]"

definition resourceHyperVDvd_Schema :: "string \<rightharpoonup> ValueType" where
  "resourceHyperVDvd_Schema = [''path'' \<mapsto> TypeString, ''ip'' \<mapsto> TypeString, ''exists'' \<mapsto> TypeBool]"

definition resourceHyperVVhd_Schema :: "string \<rightharpoonup> ValueType" where
  "resourceHyperVVhd_Schema =
     [''path'' \<mapsto> TypeString, ''source'' \<mapsto> TypeString, ''source_vm'' \<mapsto> TypeString,
      ''source_disk'' \<mapsto> TypeInt, ''vhd_type'' \<mapsto> TypeString, ''parent_path'' \<mapsto> TypeString,
      ''size'' \<mapsto> TypeInt, ''block_size'' \<mapsto> TypeInt, ''logical_sector_size'' \<mapsto> TypeInt,
      ''physical_sector_size'' \<mapsto> TypeInt, ''exists'' \<mapsto> TypeBool]"

subsection \<open>The DVD data source\<close>

definition datasourceHyperVDvdRead :: "Client \<Rightarrow> ResourceData \<Rightarrow> history \<Rightarrow> outcome" where
  "datasourceHyperVDvdRead c d h =
     (case d_GetOk d ''path'' of
        (v, False) \<Rightarrow> Some (diag_Errorf ''[ERROR][hyperv][read] path argument is required'', d, h)
      | (v, True) \<Rightarrow> do {
          path \<leftarrow> as_string v;
          (case GetVhd c h path of
             (vhd, Some err) \<Rightarrow> Some (diag_FromErr err, d, h @ [Call_GetVhd path])
           | (vhd, None) \<Rightarrow>
               (case d_Set d ''path'' (VString (Vhd_Path vhd)) of
                  Inl err \<Rightarrow> Some (diag_FromErr err, d, h @ [Call_GetVhd path])
                | Inr d1 \<Rightarrow>
                    (case (if Vhd_Path vhd \<noteq> [] then d_Set d1 ''exists'' (VBool False)
                           else d_Set d1 ''exists'' (VBool True)) of
                       Inl err \<Rightarrow> Some (diag_FromErr err, d1, h @ [Call_GetVhd path])
                     | Inr d2 \<Rightarrow> Some ([], d_SetId d2 path, h @ [Call_GetVhd path]))))
        })"

subsection \<open>The DVD resource\<close>

definition resourceHyperVDvdCreate :: "Client \<Rightarrow> ResourceData \<Rightarrow> history \<Rightarrow> outcome" where
  "resourceHyperVDvdCreate c d h = do {
     path \<leftarrow> as_string (d_Get d ''path'');
     ip \<leftarrow> as_string (d_Get d ''ip'');
     (case CreateDvd c h path ip of
        Some err \<Rightarrow> Some (diag_FromErr err, d, h @ [Call_CreateDvd path ip])
      | None \<Rightarrow> Some ([], d_SetId d path, h @ [Call_CreateDvd path ip]))
   }"

definition resourceHyperVDvdRead :: "Client \<Rightarrow> ResourceData \<Rightarrow> history \<Rightarrow> outcome" where
  "resourceHyperVDvdRead c d h = do {
     let path = rd_Id d;
     ip \<leftarrow> as_string (d_Get d ''ip'');
     (case GetDvd c h path ip of
        (res, Some err) \<Rightarrow> Some (diag_FromErr err, d, h @ [Call_GetDvd path ip])
      | (res, None) \<Rightarrow>
          (case d_Set d ''path'' (VString (Dvd_Path res)) of
             Inl err \<Rightarrow> Some (diag_FromErr err, d, h @ [Call_GetDvd path ip])
           | Inr d1 \<Rightarrow>
               (case (if Dvd_Path res = [] then d_Set d1 ''exists'' (VBool False)
                      else d_Set d1 ''exists'' (VBool True)) of
                  Inl err \<Rightarrow> Some (diag_FromErr err, d1, h @ [Call_GetDvd path ip])
                | Inr d2 \<Rightarrow> Some ([], d2, h @ [Call_GetDvd path ip]))))
   }"

definition resourceHyperVDvdDelete :: "Client \<Rightarrow> ResourceData \<Rightarrow> history \<Rightarrow> outcome" where
  "resourceHyperVDvdDelete c d h =
     (let path = rd_Id d in
      case DeleteDvd c h path of
        Some err \<Rightarrow> Some (diag_FromErr err, d, h @ [Call_DeleteDvd path])
      | None \<Rightarrow> Some ([], d, h @ [Call_DeleteDvd path]))"

subsection \<open>The VHD resource\<close>

definition resourceHyperVVhdRead :: "api_pkg \<Rightarrow> Client \<Rightarrow> ResourceData \<Rightarrow> history \<Rightarrow> outcome" where
  "resourceHyperVVhdRead api c d h =
     (let path = rd_Id d; h1 = h @ [Call_GetVhd path] in
      case GetVhd c h path of
        (vhd, Some err) \<Rightarrow> Some (diag_FromErr err, d, h1)
      | (vhd, None) \<Rightarrow>
      (case d_Set d ''path'' (VString (Vhd_Path vhd)) of
        Inl err \<Rightarrow> Some (diag_FromErr err, d, h1)
      | Inr d1 \<Rightarrow>
      (case (if Vhd_Path vhd = [] then d_Set d1 ''exists'' (VBool False)
             else d_Set d1 ''exists'' (VBool True)) of
        Inl err \<Rightarrow> Some (diag_FromErr err, d1, h1)
      | Inr d2 \<Rightarrow>
      (case d_Set d2 ''vhd_type'' (VString (VhdType_name api (Vhd_VhdType vhd))) of
        Inl err \<Rightarrow> Some (diag_FromErr err, d2, h1)
      | Inr d3 \<Rightarrow>
      if Vhd_VhdType vhd = VhdType_Differencing api then
        (case d_Set d3 ''parent_path'' (VString (Vhd_ParentPath vhd)) of
           Inl err \<Rightarrow> Some (diag_FromErr err, d3, h1)
         | Inr d4 \<Rightarrow> Some ([], d4, h1))
      else
        (case d_Set d3 ''size'' (VInt (sint (Vhd_Size vhd))) of
           Inl err \<Rightarrow> Some (diag_FromErr err, d3, h1)
         | Inr d4 \<Rightarrow>
        (case d_Set d4 ''block_size'' (VInt (uint (Vhd_BlockSize vhd))) of
           Inl err \<Rightarrow> Some (diag_FromErr err, d4, h1)
         | Inr d5 \<Rightarrow>
        (case d_Set d5 ''logical_sector_size'' (VInt (uint (Vhd_LogicalSectorSize vhd))) of
           Inl err \<Rightarrow> Some (diag_FromErr err, d5, h1)
         | Inr d6 \<Rightarrow>
        (case d_Set d6 ''physical_sector_size'' (VInt (uint (Vhd_PhysicalSectorSize vhd))) of
           Inl err \<Rightarrow> Some (diag_FromErr err, d6, h1)
         | Inr d7 \<Rightarrow> Some ([], d7, h1)))))))))"

text \<open>
  The two errors that the create handler makes itself. The verb \<open>%+v\<close> of an error
  prints what \<open>Error()\<close> returns (no error type here has a formatter of its own).
\<close>

definition checking_for_existing :: "string \<Rightarrow> error \<Rightarrow> error" where
  "checking_for_existing path err = fmt_Errorf (''checking for existing '' @ path @ '': '' @ Error err)"

definition already_exists :: "string \<Rightarrow> error" where
  "already_exists path =
     fmt_Errorf (''A resource with the ID '' @ strconv_Quote path
       @ '' already exists - to be managed via Terraform this resource needs to be imported into the State. Please see the resource documentation for ''
       @ strconv_Quote ''hyperv_vhd'' @ '' for more information.'' @ [CHR 0x0A]
       @ '' terraform import '' @ ''hyperv_vhd'' @ ''.<resource name> '' @ path)"

definition resourceHyperVVhdCreate :: "api_pkg \<Rightarrow> Client \<Rightarrow> ResourceData \<Rightarrow> history \<Rightarrow> outcome" where
  "resourceHyperVVhdCreate api c d h =
     (case d_GetOk d ''path'' of
        (v, False) \<Rightarrow> Some (diag_Errorf ''[ERROR][hyperv][create] path argument is required'', d, h)
      | (v, True) \<Rightarrow> do {
          path \<leftarrow> as_string v;
          (case (if rd_IsNewResource d then
                   (case VhdExists c h path of
                      (existing, Some err) \<Rightarrow> Some (checking_for_existing path err)
                    | (existing, None) \<Rightarrow> if Exists existing then Some (already_exists path) else None)
                 else None) of
             Some err \<Rightarrow> Some (diag_FromErr err, d, h @ [Call_VhdExists path])
           | None \<Rightarrow> do {
               let h1 = (if rd_IsNewResource d then h @ [Call_VhdExists path] else h);
               source \<leftarrow> as_string (d_Get d ''source'');
               sourceVm \<leftarrow> as_string (d_Get d ''source_vm'');
               sourceDisk \<leftarrow> as_int (d_Get d ''source_disk'');
               vhdTypeName \<leftarrow> as_string (d_Get d ''vhd_type'');
               let vhdType = ToVhdType api vhdTypeName;
               parentPath \<leftarrow> as_string (d_Get d ''parent_path'');
               sizeInt \<leftarrow> as_int (d_Get d ''size'');
               let size = (word_of_int sizeInt :: 64 word);
               blockSizeInt \<leftarrow> as_int (d_Get d ''block_size'');
               let blockSize = (word_of_int blockSizeInt :: 32 word);
               logicalSectorSizeInt \<leftarrow> as_int (d_Get d ''logical_sector_size'');
               let logicalSectorSize = (word_of_int logicalSectorSizeInt :: 32 word);
               physicalSectorSizeInt \<leftarrow> as_int (d_Get d ''physical_sector_size'');
               let physicalSectorSize = (word_of_int physicalSectorSizeInt :: 32 word);
               let h2 = h1 @ [Call_CreateOrUpdateVhd path source sourceVm sourceDisk vhdType parentPath
                               size blockSize logicalSectorSize physicalSectorSize];
               (case CreateOrUpdateVhd c h1 path source sourceVm sourceDisk vhdType parentPath
                       size blockSize logicalSectorSize physicalSectorSize of
                  Some err \<Rightarrow> Some (diag_FromErr err, d, h2)
                | None \<Rightarrow>
                    if 0 < size \<and> parentPath = [] then
                      (case ResizeVhd c h2 path size of
                         Some err \<Rightarrow> Some (diag_FromErr err, d, h2 @ [Call_ResizeVhd path size])
                       | None \<Rightarrow>
                           resourceHyperVVhdRead api c (d_SetId d path) (h2 @ [Call_ResizeVhd path size]))
                    else resourceHyperVVhdRead api c (d_SetId d path) h2)
             })
        })"

definition resourceHyperVVhdUpdate :: "api_pkg \<Rightarrow> Client \<Rightarrow> ResourceData \<Rightarrow> history \<Rightarrow> outcome" where
  "resourceHyperVVhdUpdate api c d h = do {
     let path = rd_Id d;
     source \<leftarrow> as_string (d_Get d ''source'');
     sourceVm \<leftarrow> as_string (d_Get d ''source_vm'');
     sourceDisk \<leftarrow> as_int (d_Get d ''source_disk'');
     vhdTypeName \<leftarrow> as_string (d_Get d ''vhd_type'');
     let vhdType = ToVhdType api vhdTypeName;
     parentPath \<leftarrow> as_string (d_Get d ''parent_path'');
     sizeInt \<leftarrow> as_int (d_Get d ''size'');
     let size = (word_of_int sizeInt :: 64 word);
     blockSizeInt \<leftarrow> as_int (d_Get d ''block_size'');
     let blockSize = (word_of_int blockSizeInt :: 32 word);
     logicalSectorSizeInt \<leftarrow> as_int (d_Get d ''logical_sector_size'');
     let logicalSectorSize = (word_of_int logicalSectorSizeInt :: 32 word);
     physicalSectorSizeInt \<leftarrow> as_int (d_Get d ''physical_sector_size'');
     let physicalSectorSize = (word_of_int physicalSectorSizeInt :: 32 word);
     exists \<leftarrow> as_bool (d_Get d ''exists'');
     let changed = (\<not> exists \<or> d_HasChange d ''path'' \<or> d_HasChange d ''source''
                    \<or> d_HasChange d ''source_vm'' \<or> d_HasChange d ''source_disk''
                    \<or> d_HasChange d ''parent_path'');
     let h1 = (if changed then h @ [Call_CreateOrUpdateVhd path source sourceVm sourceDisk vhdType
                                      parentPath size blockSize logicalSectorSize physicalSectorSize]
               else h);
     (case (if changed then CreateOrUpdateVhd c h path source sourceVm sourceDisk vhdType parentPath
                              size blockSize logicalSectorSize physicalSectorSize
            else None) of
        Some err \<Rightarrow> Some (diag_FromErr err, d, h1)
      | None \<Rightarrow>
          if 0 < size \<and> parentPath = [] \<and> (\<not> exists \<or> d_HasChange d ''size'') then
            (case ResizeVhd c h1 path size of
               Some err \<Rightarrow> Some (diag_FromErr err, d, h1 @ [Call_ResizeVhd path size])
             | None \<Rightarrow> resourceHyperVVhdRead api c d (h1 @ [Call_ResizeVhd path size]))
          else resourceHyperVVhdRead api c d h1)
   }"

definition resourceHyperVVhdDelete :: "Client \<Rightarrow> ResourceData \<Rightarrow> history \<Rightarrow> outcome" where
  "resourceHyperVVhdDelete c d h =
     (let path = rd_Id d in
      case DeleteVhd c h path of
        Some err \<Rightarrow> Some (diag_FromErr err, d, h @ [Call_DeleteVhd path])
      | None \<Rightarrow> Some ([], d, h @ [Call_DeleteVhd path]))"

subsection \<open>Observations on an outcome\<close>

fun is_ResizeVhd :: "call \<Rightarrow> bool" where
  "is_ResizeVhd (Call_ResizeVhd p sz) = True"
| "is_ResizeVhd _ = False"

fun is_CreateOrUpdateVhd :: "call \<Rightarrow> bool" where
  "is_CreateOrUpdateVhd (Call_CreateOrUpdateVhd p s sv sd t pp sz bs ls ps) = True"
| "is_CreateOrUpdateVhd _ = False"

text \<open>The calls that a handler started after the history \<open>h\<close> added to it.\<close>

definition calls_of :: "history \<Rightarrow> outcome \<Rightarrow> call list" where
  "calls_of h r = (case r of None \<Rightarrow> [] | Some (ds, d', h') \<Rightarrow> drop (length h) h')"

definition diags_of :: "outcome \<Rightarrow> Diagnostics" where
  "diags_of r = (case r of None \<Rightarrow> [] | Some (ds, d', h') \<Rightarrow> ds)"

definition data_of :: "ResourceData \<Rightarrow> outcome \<Rightarrow> ResourceData" where
  "data_of d r = (case r of None \<Rightarrow> d | Some (ds, d', h') \<Rightarrow> d')"

text \<open>
  The attributes after a read of the VHD resource that returns no diagnostic, as the
  lemmas \<open>vhd_read_success\<close> and \<open>vhd_read_total\<close> show.
\<close>

definition vhd_read_attrs :: "api_pkg \<Rightarrow> Vhd \<Rightarrow> (string \<rightharpoonup> Value) \<Rightarrow> (string \<rightharpoonup> Value)" where
  "vhd_read_attrs api vhd m =
     (let m3 = m(''path'' \<mapsto> VString (Vhd_Path vhd), ''exists'' \<mapsto> VBool (Vhd_Path vhd \<noteq> []),
                 ''vhd_type'' \<mapsto> VString (VhdType_name api (Vhd_VhdType vhd)))
      in if Vhd_VhdType vhd = VhdType_Differencing api
         then m3(''parent_path'' \<mapsto> VString (Vhd_ParentPath vhd))
         else m3(''size'' \<mapsto> VInt (sint (Vhd_Size vhd)),
                 ''block_size'' \<mapsto> VInt (uint (Vhd_BlockSize vhd)),
                 ''logical_sector_size'' \<mapsto> VInt (uint (Vhd_LogicalSectorSize vhd)),
                 ''physical_sector_size'' \<mapsto> VInt (uint (Vhd_PhysicalSectorSize vhd))))"

text \<open>
  The attributes that the create and update handlers of the VHD resource read, and the
  call of \<open>CreateOrUpdateVhd\<close> that they make from them.
\<close>

record vhd_config =
  cfg_source :: string
  cfg_source_vm :: string
  cfg_source_disk :: int
  cfg_vhd_type :: string
  cfg_parent_path :: string
  cfg_size :: int
  cfg_block_size :: int
  cfg_logical_sector_size :: int
  cfg_physical_sector_size :: int
  cfg_exists :: bool

definition configured :: "ResourceData \<Rightarrow> vhd_config \<Rightarrow> bool" where
  "configured d a \<longleftrightarrow>
     d_Get d ''source'' = Some (VString (cfg_source a))
     \<and> d_Get d ''source_vm'' = Some (VString (cfg_source_vm a))
     \<and> d_Get d ''source_disk'' = Some (VInt (cfg_source_disk a))
     \<and> d_Get d ''vhd_type'' = Some (VString (cfg_vhd_type a))
     \<and> d_Get d ''parent_path'' = Some (VString (cfg_parent_path a))
     \<and> d_Get d ''size'' = Some (VInt (cfg_size a))
     \<and> d_Get d ''block_size'' = Some (VInt (cfg_block_size a))
     \<and> d_Get d ''logical_sector_size'' = Some (VInt (cfg_logical_sector_size a))
     \<and> d_Get d ''physical_sector_size'' = Some (VInt (cfg_physical_sector_size a))
     \<and> d_Get d ''exists'' = Some (VBool (cfg_exists a))"

definition create_call :: "api_pkg \<Rightarrow> string \<Rightarrow> vhd_config \<Rightarrow> call" where
  "create_call api path a =
     Call_CreateOrUpdateVhd path (cfg_source a) (cfg_source_vm a) (cfg_source_disk a)
       (ToVhdType api (cfg_vhd_type a)) (cfg_parent_path a) (word_of_int (cfg_size a))
       (word_of_int (cfg_block_size a)) (word_of_int (cfg_logical_sector_size a))
       (word_of_int (cfg_physical_sector_size a))"

definition resize_call :: "string \<Rightarrow> vhd_config \<Rightarrow> call" where
  "resize_call path a = Call_ResizeVhd path (word_of_int (cfg_size a))"

text \<open>The history when the pre-check of the create handler has passed.\<close>

definition precheck_history :: "ResourceData \<Rightarrow> history \<Rightarrow> string \<Rightarrow> history" where
  "precheck_history d h p = (if rd_IsNewResource d then h @ [Call_VhdExists p] else h)"

text \<open>The condition under which the update handler calls \<open>CreateOrUpdateVhd\<close>.\<close>

definition update_recreates :: "ResourceData \<Rightarrow> vhd_config \<Rightarrow> bool" where
  "update_recreates d a \<longleftrightarrow>
     \<not> cfg_exists a \<or> d_HasChange d ''path'' \<or> d_HasChange d ''source'' \<or> d_HasChange d ''source_vm''
     \<or> d_HasChange d ''source_disk'' \<or> d_HasChange d ''parent_path''"

text \<open>
  Error propagation along a list of calls made after \<open>h\<close>: no call follows one that the
  client answered with an error, and the diagnostics are those of that error, as
  \<open>conv\<close> reports it.
\<close>

fun propagated :: "(call \<Rightarrow> error \<Rightarrow> error) \<Rightarrow> Client \<Rightarrow> history \<Rightarrow> call list \<Rightarrow> Diagnostics \<Rightarrow> bool" where
  "propagated conv c h [] ds = True"
| "propagated conv c h (x # xs) ds =
     (case call_err c h x of
        None \<Rightarrow> propagated conv c (h @ [x]) xs ds
      | Some e \<Rightarrow> xs = [] \<and> ds = diag_FromErr (conv x e))"

definition propagates :: "(call \<Rightarrow> error \<Rightarrow> error) \<Rightarrow> Client \<Rightarrow> history \<Rightarrow> outcome \<Rightarrow> bool" where
  "propagates conv c h r =
     (case r of
        None \<Rightarrow> False
      | Some (ds, d', h') \<Rightarrow> take (length h) h' = h \<and> propagated conv c h (drop (length h) h') ds)"

text \<open>The error of a call as it is: nothing is done to it before it becomes a diagnostic.\<close>

definition unaltered :: "call \<Rightarrow> error \<Rightarrow> error" where
  "unaltered x e = e"

text \<open>The error of a call as the handlers report it: the one of \<open>VhdExists\<close> is wrapped.\<close>

fun as_reported :: "call \<Rightarrow> error \<Rightarrow> error" where
  "as_reported (Call_VhdExists p) e = checking_for_existing p e"
| "as_reported x e = e"

section \<open>The WinRM implementation of the DVD client (package hyperv_winrm)\<close>

text \<open>
  The three parsed templates and the argument structures they are executed with. The
  two runners are methods of the WinRM client, which is not among the source files: they
  are the fields of a record. Like the calls of the facade, the runs are recorded, and a
  runner's answer may depend on the runs before it.
\<close>

datatype template = createDvdTemplate | getDvdTemplate | deleteDvdTemplate

datatype args = createDvdArgs string string | getDvdArgs string string | deleteDvdArgs string

datatype run = Run_FireAndForgetScript template args | Run_ScriptWithResult template args

record WinRmClient =
  RunFireAndForgetScript :: "run list \<Rightarrow> template \<Rightarrow> args \<Rightarrow> error option"
  RunScriptWithResult :: "run list \<Rightarrow> template \<Rightarrow> args \<Rightarrow> Dvd \<Rightarrow> Dvd \<times> error option"

record ClientConfig =
  WinRmClient :: WinRmClient

definition ClientConfig_CreateDvd :: "ClientConfig \<Rightarrow> run list \<Rightarrow> string \<Rightarrow> string \<Rightarrow> error option \<times> run list" where
  "ClientConfig_CreateDvd c rs path ip =
     (RunFireAndForgetScript (WinRmClient c) rs createDvdTemplate (createDvdArgs path ip),
      rs @ [Run_FireAndForgetScript createDvdTemplate (createDvdArgs path ip)])"

text \<open>The named result starts as the zero value; the runner writes through the pointer to it.\<close>

definition ClientConfig_GetDvd :: "ClientConfig \<Rightarrow> run list \<Rightarrow> string \<Rightarrow> string \<Rightarrow> (Dvd \<times> error option) \<times> run list" where
  "ClientConfig_GetDvd c rs path ip =
     (RunScriptWithResult (WinRmClient c) rs getDvdTemplate (getDvdArgs path ip) zero_Dvd,
      rs @ [Run_ScriptWithResult getDvdTemplate (getDvdArgs path ip)])"

definition ClientConfig_DeleteDvd :: "ClientConfig \<Rightarrow> run list \<Rightarrow> string \<Rightarrow> error option \<times> run list" where
  "ClientConfig_DeleteDvd c rs path =
     (RunFireAndForgetScript (WinRmClient c) rs deleteDvdTemplate (deleteDvdArgs path),
      rs @ [Run_FireAndForgetScript deleteDvdTemplate (deleteDvdArgs path)])"

subsection \<open>The lookup script\<close>

text \<open>
  What the remote host answers. \<open>Test_Path\<close> and \<open>ConvertTo_Json\<close> are the two cmdlets of
  the lookup script; the effects of the scripts that create and delete are not modelled,
  their results are the host's.
\<close>

record ExecutionResult =
  exitCode :: int
  stdout :: string
  stderr :: string

record RemoteHost =
  Test_Path :: "string \<Rightarrow> bool"
  ConvertTo_Json :: "(string \<times> string) list \<Rightarrow> string"
  createDvd_result :: "string \<Rightarrow> string \<Rightarrow> ExecutionResult"
  deleteDvd_result :: "string \<Rightarrow> ExecutionResult"

text \<open>
  The body of \<open>getDvdTemplate\<close> with \<open>$path\<close> and \<open>$ip\<close> bound to the two arguments:
  the object as JSON when the path tests true, the text \<open>{}\<close> otherwise.
\<close>

definition getDvdTemplate_script :: "string \<Rightarrow> string \<Rightarrow> RemoteHost \<Rightarrow> ExecutionResult" where
  "getDvdTemplate_script path ip rh =
     (if Test_Path rh path then
        \<lparr>exitCode = 0, stdout = ConvertTo_Json rh [(''Path'', path), (''Ip'', ip)], stderr = []\<rparr>
      else \<lparr>exitCode = 0, stdout = ''{}'', stderr = []\<rparr>)"

subsection \<open>The execution engine\<close>

text \<open>
  Modelled from the spec: the Session Transport (4.2), whose code is not among the source
  files. \<open>execute\<close> either fails at the transport level or returns the exit code and the
  two streams of the script, run on the host as it is after the runs so far.
\<close>

record Session =
  transport_error :: "run list \<Rightarrow> error option"
  host :: "run list \<Rightarrow> RemoteHost"

definition execute :: "Session \<Rightarrow> run list \<Rightarrow> (RemoteHost \<Rightarrow> ExecutionResult) \<Rightarrow> error + ExecutionResult" where
  "execute s rs script =
     (case transport_error s rs of
        Some e \<Rightarrow> Inl e
      | None \<Rightarrow> Inr (script (host s rs)))"

text \<open>
  Modelled from the spec: the Template Renderer (4.1), whose code is not among the source
  files. It substitutes every placeholder by an escaped literal, so the variables of a
  rendered script hold the values of the arguments: a rendered script is what the
  template's body does on a host with these values. Arguments of another template's
  type are the type mismatch that fails before any remote call.
\<close>

fun render :: "template \<Rightarrow> args \<Rightarrow> (RemoteHost \<Rightarrow> ExecutionResult) option" where
  "render getDvdTemplate (getDvdArgs path ip) = Some (getDvdTemplate_script path ip)"
| "render createDvdTemplate (createDvdArgs path ip) = Some (\<lambda>rh. createDvd_result rh path ip)"
| "render deleteDvdTemplate (deleteDvdArgs path) = Some (\<lambda>rh. deleteDvd_result rh path)"
| "render _ _ = None"

text \<open>
  Modelled from the spec: the Result Decoder (4.4), whose code is not among the source
  files, at the result type \<open>Dvd\<close>. The empty-object marker and an empty or
  whitespace-only output decode to the zero value; any other output is a structured
  payload, read by \<open>payload\<close> (the object notation's parser, \<open>None\<close> when it is
  malformed), whose keys are matched to the fields without regard to case.
\<close>

definition is_space :: "char \<Rightarrow> bool" where
  "is_space c = (c = CHR '' '' \<or> c = CHR 0x09 \<or> c = CHR 0x0A \<or> c = CHR 0x0D)"

definition to_lower :: "char \<Rightarrow> char" where
  "to_lower c = (let n = (of_char c :: nat) in if 65 \<le> n \<and> n \<le> 90 then char_of (n + 32) else c)"

fun field_ci :: "string \<Rightarrow> (string \<times> string) list \<Rightarrow> string" where
  "field_ci name [] = []"
| "field_ci name ((k, v) # kvs) =
     (if map to_lower k = map to_lower name then v else field_ci name kvs)"

definition decode :: "(string \<Rightarrow> (string \<times> string) list option) \<Rightarrow> string \<Rightarrow> error + Dvd" where
  "decode payload out =
     (if out = ''{}'' \<or> list_all is_space out then Inr zero_Dvd
      else case payload out of
             None \<Rightarrow> Inl (GoError DecodeFailure out)
           | Some kvs \<Rightarrow> Inr \<lparr>Dvd_Path = field_ci ''Path'' kvs, Dvd_Ip = field_ci ''Ip'' kvs\<rparr>)"

text \<open>
  Modelled from the spec: the Script Executor (4.3) and the Fire-and-Forget Runner (4.5),
  whose code is not among the source files. Both render and execute; a non-zero exit
  code (for the executor also a non-empty error stream) is a remote script failure that
  carries the error stream; only the executor decodes the output into the target.
\<close>

definition runWithResult :: "Session \<Rightarrow> (string \<Rightarrow> (string \<times> string) list option) \<Rightarrow> run list
    \<Rightarrow> template \<Rightarrow> args \<Rightarrow> Dvd \<Rightarrow> Dvd \<times> error option" where
  "runWithResult s payload rs t a target =
     (case render t a of
        None \<Rightarrow> (target, Some (GoError ValidationError ''template and arguments do not match''))
      | Some script \<Rightarrow>
          (case execute s rs script of
             Inl e \<Rightarrow> (target, Some e)
           | Inr r \<Rightarrow>
               if exitCode r \<noteq> 0 \<or> stderr r \<noteq> [] then (target, Some (GoError RemoteScriptFailure (stderr r)))
               else (case decode payload (stdout r) of
                       Inl e \<Rightarrow> (target, Some e)
                     | Inr v \<Rightarrow> (v, None))))"

definition runFireAndForget :: "Session \<Rightarrow> run list \<Rightarrow> template \<Rightarrow> args \<Rightarrow> error option" where
  "runFireAndForget s rs t a =
     (case render t a of
        None \<Rightarrow> Some (GoError ValidationError ''template and arguments do not match'')
      | Some script \<Rightarrow>
          (case execute s rs script of
             Inl e \<Rightarrow> Some e
           | Inr r \<Rightarrow> if exitCode r \<noteq> 0 then Some (GoError RemoteScriptFailure (stderr r)) else None))"

definition spec_WinRmClient :: "Session \<Rightarrow> (string \<Rightarrow> (string \<times> string) list option) \<Rightarrow> WinRmClient" where
  "spec_WinRmClient s payload =
     \<lparr>RunFireAndForgetScript = runFireAndForget s, RunScriptWithResult = runWithResult s payload\<rparr>"

section \<open>Concrete inputs\<close>

text \<open>
  A client that answers every call the same way, except that the call made when
  \<open>n\<close> calls have been made before it fails, if \<open>fail_at\<close> is \<open>Some n\<close>.
\<close>

definition connection_reset :: error where
  "connection_reset = GoError TransportFailure ''connection reset''"

definition failing :: "nat option \<Rightarrow> history \<Rightarrow> error option" where
  "failing fail_at h = (if fail_at = Some (length h) then Some connection_reset else None)"

definition example_Client :: "nat option \<Rightarrow> bool \<Rightarrow> Vhd \<Rightarrow> Client" where
  "example_Client fail_at ex vhd =
     \<lparr>CreateDvd = (\<lambda>h p ip. failing fail_at h),
      DeleteDvd = (\<lambda>h p. failing fail_at h),
      GetDvd = (\<lambda>h p ip. (\<lparr>Dvd_Path = Vhd_Path vhd, Dvd_Ip = ip\<rparr>, failing fail_at h)),
      VhdExists = (\<lambda>h p. (\<lparr>Exists = ex\<rparr>, failing fail_at h)),
      GetVhd = (\<lambda>h p. (vhd, failing fail_at h)),
      CreateOrUpdateVhd = (\<lambda>h p s sv sd t pp sz bs ls ps. failing fail_at h),
      ResizeVhd = (\<lambda>h p sz. failing fail_at h),
      DeleteVhd = (\<lambda>h p. failing fail_at h)\<rparr>"

definition example_api :: api_pkg where
  "example_api =
     \<lparr>VhdType_Differencing = 4,
      VhdType_name = (\<lambda>t. if t = 0 then ''Unknown'' else if t = 2 then ''Fixed''
                          else if t = 3 then ''Dynamic'' else if t = 4 then ''Differencing'' else []),
      ToVhdType = (\<lambda>s. if s = ''Fixed'' then 2 else if s = ''Dynamic'' then 3
                        else if s = ''Differencing'' then 4 else 0)\<rparr>"

definition example_Vhd :: "string \<Rightarrow> Vhd" where
  "example_Vhd p = zero_Vhd\<lparr>Vhd_Path := p, Vhd_Size := 4096, Vhd_VhdType := 3\<rparr>"

definition example_data :: "(string \<rightharpoonup> ValueType) \<Rightarrow> bool \<Rightarrow> (string \<rightharpoonup> Value) \<Rightarrow> ResourceData" where
  "example_data sch new m =
     \<lparr>rd_schema = sch, rd_Id = ''d.vhdx'', rd_IsNewResource = new, rd_state = m, rd_attrs = m\<rparr>"

definition example_host :: RemoteHost where
  "example_host =
     \<lparr>Test_Path = (\<lambda>p. p = ''c.iso''),
      ConvertTo_Json = (\<lambda>kvs. ''{...}''),
      createDvd_result = (\<lambda>p ip. \<lparr>exitCode = 0, stdout = ''created'', stderr = []\<rparr>),
      deleteDvd_result = (\<lambda>p. \<lparr>exitCode = 0, stdout = [], stderr = []\<rparr>)\<rparr>"

text \<open>A parser of payloads that reads the output of \<open>example_host\<close> and nothing else.\<close>

definition example_payload :: "string \<Rightarrow> (string \<times> string) list option" where
  "example_payload out =
     (if out = ''{...}'' then Some [(''path'', ''c.iso''), (''IP'', ''10.0.0.1'')] else None)"

definition example_Session :: Session where
  "example_Session = \<lparr>transport_error = (\<lambda>rs. None), host = (\<lambda>rs. example_host)\<rparr>"

section \<open>Properties\<close>

subsection \<open>Diagnostics, schemas and the resource data\<close>

lemma diag_FromErr_HasError: "HasError (diag_FromErr e)"
  by (simp add: diag_FromErr_def HasError_def)

lemma diag_Errorf_HasError: "HasError (diag_Errorf s)"
  by (simp add: diag_Errorf_def HasError_def)

lemma dataSource_schema_simps:
  "dataSourceHyperVDvd_Schema ''path'' = Some TypeString"
  "dataSourceHyperVDvd_Schema ''exists'' = None"
  by (simp_all add: dataSourceHyperVDvd_Schema_def)

lemma dataSource_schema_dom: "dom dataSourceHyperVDvd_Schema = {''path'', ''source''}"
  by (auto simp: dataSourceHyperVDvd_Schema_def)

lemma d_Set_undeclared:
  "rd_schema d key = None \<Longrightarrow>
   d_Set d key v = Inl (fmt_Errorf (''Invalid address to set: []string{'' @ strconv_Quote key @ ''}''))"
  by (simp add: d_Set_def)

lemma d_Set_declared:
  "rd_schema d key = Some (type_of v) \<Longrightarrow> d_Set d key v = Inr (d\<lparr>rd_attrs := (rd_attrs d)(key \<mapsto> v)\<rparr>)"
  by (simp add: d_Set_def)

lemma d_Set_Inr_iff:
  "d_Set d key v = Inr d' \<longleftrightarrow> rd_schema d key = Some (type_of v) \<and> d' = d\<lparr>rd_attrs := (rd_attrs d)(key \<mapsto> v)\<rparr>"
  by (auto simp: d_Set_def split: option.splits)

lemma GetOk_string_declared:
  assumes "rd_schema d key = Some TypeString"
  shows "\<exists>s. d_GetOk d key = (Some (VString s), s \<noteq> [])"
proof (cases "rd_attrs d key")
  case None
  with assms show ?thesis by (simp add: d_GetOk_def d_Get_def read_field_def)
next
  case (Some v)
  with assms show ?thesis
    by (cases v) (simp_all add: d_GetOk_def d_Get_def read_field_def)
qed

text \<open>The data-source read, once the lookup has answered and the path is stored.\<close>

lemma datasource_read_after_lookup:
  assumes "d_GetOk d ''path'' = (Some (VString p), True)"
    and "GetVhd c h p = (vhd, None)"
    and "d_Set d ''path'' (VString (Vhd_Path vhd)) = Inr d1"
  shows "datasourceHyperVDvdRead c d h =
           (case d_Set d1 ''exists'' (VBool (Vhd_Path vhd = [])) of
              Inl err \<Rightarrow> Some (diag_FromErr err, d1, h @ [Call_GetVhd p])
            | Inr d2 \<Rightarrow> Some ([], d_SetId d2 p, h @ [Call_GetVhd p]))"
  using assms by (simp add: datasourceHyperVDvdRead_def)

subsection \<open>The DVD data source cannot store \<open>exists\<close>\<close>

text \<open>
  Claim C3. The schema of the DVD data source declares \<open>path\<close> and \<open>source\<close> only. With
  that schema the read always returns (it does not panic) and always returns an error
  diagnostic; when the path is set and the lookup succeeds, the diagnostic is the error
  of setting the attribute \<open>exists\<close>, an address that the schema does not have.
\<close>

theorem C3_datasource_read_fails:
  assumes "rd_schema d = dataSourceHyperVDvd_Schema"
  shows "dom dataSourceHyperVDvd_Schema = {''path'', ''source''}
         \<and> datasourceHyperVDvdRead c d h \<noteq> None
         \<and> HasError (diags_of (datasourceHyperVDvdRead c d h))
         \<and> (\<forall>p vhd. d_GetOk d ''path'' = (Some (VString p), True) \<and> GetVhd c h p = (vhd, None) \<longrightarrow>
              diags_of (datasourceHyperVDvdRead c d h)
                = diag_FromErr (fmt_Errorf (''Invalid address to set: []string{'' @ strconv_Quote ''exists'' @ ''}'')))"
proof -
  from assms have sp: "rd_schema d ''path'' = Some TypeString" and se: "rd_schema d ''exists'' = None"
    by (simp_all add: dataSource_schema_simps)
  from GetOk_string_declared [OF sp] obtain s where g: "d_GetOk d ''path'' = (Some (VString s), s \<noteq> [])"
    by blast
  obtain vhd e where l: "GetVhd c h s = (vhd, e)" by (cases "GetVhd c h s") auto
  define d1 where "d1 = d\<lparr>rd_attrs := (rd_attrs d)(''path'' \<mapsto> VString (Vhd_Path vhd))\<rparr>"
  have s1: "d_Set d ''path'' (VString (Vhd_Path vhd)) = Inr d1"
    using sp by (simp add: d_Set_def d1_def)
  have s2: "\<And>v. d_Set d1 ''exists'' v
              = Inl (fmt_Errorf (''Invalid address to set: []string{'' @ strconv_Quote ''exists'' @ ''}''))"
    using se by (simp add: d_Set_def d1_def)
  have a: "datasourceHyperVDvdRead c d h \<noteq> None \<and> HasError (diags_of (datasourceHyperVDvdRead c d h))"
    using g l s1 s2
    by (cases "s = []"; cases e)
       (simp_all add: datasourceHyperVDvdRead_def diags_of_def diag_FromErr_HasError diag_Errorf_HasError)
  have b: "diags_of (datasourceHyperVDvdRead c d h)
             = diag_FromErr (fmt_Errorf (''Invalid address to set: []string{'' @ strconv_Quote ''exists'' @ ''}''))"
    if "d_GetOk d ''path'' = (Some (VString p), True)" "GetVhd c h p = (vhd', None)" for p vhd'
  proof -
    from that g have "p = s" by simp
    with that l have "vhd' = vhd" "e = None" by simp_all
    with that \<open>p = s\<close> s1 s2 show ?thesis
      by (simp add: datasource_read_after_lookup diags_of_def)
  qed
  from a b dataSource_schema_dom show ?thesis by blast
qed

theorem C3_datasource_read_fails_witness:
  "rd_schema (example_data dataSourceHyperVDvd_Schema False [''path'' \<mapsto> VString ''c.iso'']) = dataSourceHyperVDvd_Schema
   \<and> d_GetOk (example_data dataSourceHyperVDvd_Schema False [''path'' \<mapsto> VString ''c.iso'']) ''path''
       = (Some (VString ''c.iso''), True)
   \<and> GetVhd (example_Client None False (example_Vhd ''c.iso'')) [] ''c.iso'' = (example_Vhd ''c.iso'', None)
   \<and> HasError (diags_of (datasourceHyperVDvdRead (example_Client None False (example_Vhd ''c.iso''))
        (example_data dataSourceHyperVDvd_Schema False [''path'' \<mapsto> VString ''c.iso'']) []))
   \<and> diags_of (datasourceHyperVDvdRead (example_Client None False (example_Vhd ''c.iso''))
        (example_data dataSourceHyperVDvd_Schema False [''path'' \<mapsto> VString ''c.iso'']) [])
       = diag_FromErr (fmt_Errorf (''Invalid address to set: []string{'' @ strconv_Quote ''exists'' @ ''}''))"
proof -
  let ?d = "example_data dataSourceHyperVDvd_Schema False [''path'' \<mapsto> VString ''c.iso'']"
  let ?c = "example_Client None False (example_Vhd ''c.iso'')"
  have s: "rd_schema ?d = dataSourceHyperVDvd_Schema" by (simp add: example_data_def)
  have g: "d_GetOk ?d ''path'' = (Some (VString ''c.iso''), True)"
    by (simp add: example_data_def d_GetOk_def d_Get_def read_field_def dataSource_schema_simps)
  have l: "GetVhd ?c [] ''c.iso'' = (example_Vhd ''c.iso'', None)"
    by (simp add: example_Client_def failing_def)
  from C3_datasource_read_fails [OF s, of ?c "[]"] g l s show ?thesis by blast
qed

subsection \<open>The path argument is required\<close>

lemma GetOk_unset:
  assumes "rd_attrs d key = None \<or> rd_attrs d key = Some (VString [])"
  shows "snd (d_GetOk d key) = False"
  using assms
  by (cases "rd_schema d key"; cases "the (rd_schema d key)")
     (auto simp: d_GetOk_def d_Get_def read_field_def)

text \<open>
  Claim C7. When the attribute \<open>path\<close> is absent or is the empty string, the VHD create
  handler and the DVD data-source read return the error diagnostic that the path
  argument is required, and the history of client calls is the one they started with:
  no client call is made.
\<close>

theorem C7_path_required:
  assumes "rd_attrs d ''path'' = None \<or> rd_attrs d ''path'' = Some (VString [])"
  shows "resourceHyperVVhdCreate api c d h
           = Some (diag_Errorf ''[ERROR][hyperv][create] path argument is required'', d, h)
         \<and> datasourceHyperVDvdRead c d h
           = Some (diag_Errorf ''[ERROR][hyperv][read] path argument is required'', d, h)
         \<and> HasError (diag_Errorf ''[ERROR][hyperv][create] path argument is required'')
         \<and> HasError (diag_Errorf ''[ERROR][hyperv][read] path argument is required'')"
proof -
  from GetOk_unset [OF assms] obtain v where "d_GetOk d ''path'' = (v, False)"
    by (cases "d_GetOk d ''path''") auto
  then show ?thesis
    by (simp add: resourceHyperVVhdCreate_def datasourceHyperVDvdRead_def diag_Errorf_HasError)
qed

theorem C7_path_required_witness:
  "rd_attrs (example_data resourceHyperVVhd_Schema True Map.empty) ''path'' = None
   \<and> resourceHyperVVhdCreate example_api (example_Client None False zero_Vhd)
        (example_data resourceHyperVVhd_Schema True Map.empty) []
       = Some (diag_Errorf ''[ERROR][hyperv][create] path argument is required'',
               example_data resourceHyperVVhd_Schema True Map.empty, [])
   \<and> datasourceHyperVDvdRead (example_Client None False zero_Vhd)
        (example_data resourceHyperVVhd_Schema True Map.empty) []
       = Some (diag_Errorf ''[ERROR][hyperv][read] path argument is required'',
               example_data resourceHyperVVhd_Schema True Map.empty, [])"
proof -
  have a: "rd_attrs (example_data resourceHyperVVhd_Schema True Map.empty) ''path'' = None"
    by (simp add: example_data_def)
  then have "rd_attrs (example_data resourceHyperVVhd_Schema True Map.empty) ''path'' = None
      \<or> rd_attrs (example_data resourceHyperVVhd_Schema True Map.empty) ''path'' = Some (VString [])"
    by simp
  from C7_path_required [OF this, of example_api "example_Client None False zero_Vhd" "[]"] a
  show ?thesis by blast
qed

lemma diag_FromErr_not_Nil: "diag_FromErr e \<noteq> []"
  by (simp add: diag_FromErr_def)

lemma vhd_schema_simps:
  "resourceHyperVVhd_Schema ''path'' = Some TypeString"
  "resourceHyperVVhd_Schema ''source'' = Some TypeString"
  "resourceHyperVVhd_Schema ''source_vm'' = Some TypeString"
  "resourceHyperVVhd_Schema ''source_disk'' = Some TypeInt"
  "resourceHyperVVhd_Schema ''vhd_type'' = Some TypeString"
  "resourceHyperVVhd_Schema ''parent_path'' = Some TypeString"
  "resourceHyperVVhd_Schema ''size'' = Some TypeInt"
  "resourceHyperVVhd_Schema ''block_size'' = Some TypeInt"
  "resourceHyperVVhd_Schema ''logical_sector_size'' = Some TypeInt"
  "resourceHyperVVhd_Schema ''physical_sector_size'' = Some TypeInt"
  "resourceHyperVVhd_Schema ''exists'' = Some TypeBool"
  by (simp_all add: resourceHyperVVhd_Schema_def)

lemma dvd_schema_simps:
  "resourceHyperVDvd_Schema ''path'' = Some TypeString"
  "resourceHyperVDvd_Schema ''ip'' = Some TypeString"
  "resourceHyperVDvd_Schema ''exists'' = Some TypeBool"
  by (simp_all add: resourceHyperVDvd_Schema_def)

lemma d_Set_schema: "d_Set d key v = Inr d' \<Longrightarrow> rd_schema d' = rd_schema d"
  by (auto simp: d_Set_Inr_iff)

lemma vhd_read_history:
  "\<exists>ds d'. resourceHyperVVhdRead api c d h = Some (ds, d', h @ [Call_GetVhd (rd_Id d)])"
  by (auto simp: resourceHyperVVhdRead_def Let_def split: prod.splits option.splits sum.splits)

lemma vhd_read_error:
  assumes "GetVhd c h (rd_Id d) = (vhd, Some e)"
  shows "resourceHyperVVhdRead api c d h = Some (diag_FromErr e, d, h @ [Call_GetVhd (rd_Id d)])"
  using assms by (simp add: resourceHyperVVhdRead_def Let_def)

lemma set_step:
  "(case d_Set d key v of Inl err \<Rightarrow> Some (diag_FromErr err, d0, h) | Inr d' \<Rightarrow> f d') = Some ([], dd, hh)
   \<longleftrightarrow> rd_schema d key = Some (type_of v) \<and> f (d\<lparr>rd_attrs := (rd_attrs d)(key \<mapsto> v)\<rparr>) = Some ([], dd, hh)"
  by (auto simp: d_Set_def diag_FromErr_not_Nil split: option.splits)

lemma vhd_read_success:
  assumes "resourceHyperVVhdRead api c d h = Some ([], d', h')"
  shows "\<exists>vhd. GetVhd c h (rd_Id d) = (vhd, None) \<and> h' = h @ [Call_GetVhd (rd_Id d)]
           \<and> d' = d\<lparr>rd_attrs := vhd_read_attrs api vhd (rd_attrs d)\<rparr>"
proof -
  obtain vhd e where l: "GetVhd c h (rd_Id d) = (vhd, e)" by (cases "GetVhd c h (rd_Id d)") auto
  have e: "e = None"
    using assms l by (cases e) (simp_all add: resourceHyperVVhdRead_def Let_def diag_FromErr_not_Nil)
  have "h' = h @ [Call_GetVhd (rd_Id d)] \<and> d' = d\<lparr>rd_attrs := vhd_read_attrs api vhd (rd_attrs d)\<rparr>"
  proof (cases "Vhd_Path vhd = []")
    case True
    with assms l e show ?thesis
      by (cases "Vhd_VhdType vhd = VhdType_Differencing api")
         (auto simp: resourceHyperVVhdRead_def Let_def set_step vhd_read_attrs_def)
  next
    case False
    with assms l e show ?thesis
      by (cases "Vhd_VhdType vhd = VhdType_Differencing api")
         (auto simp: resourceHyperVVhdRead_def Let_def set_step vhd_read_attrs_def)
  qed
  with l e show ?thesis by blast
qed

lemma vhd_read_total:
  assumes "rd_schema d = resourceHyperVVhd_Schema" and "GetVhd c h (rd_Id d) = (vhd, None)"
  shows "resourceHyperVVhdRead api c d h
           = Some ([], d\<lparr>rd_attrs := vhd_read_attrs api vhd (rd_attrs d)\<rparr>, h @ [Call_GetVhd (rd_Id d)])"
  using assms
  by (simp add: resourceHyperVVhdRead_def Let_def vhd_read_attrs_def d_Set_def vhd_schema_simps)

lemma Get_string_declared:
  assumes "rd_schema d key = Some TypeString"
  shows "\<exists>s. d_Get d key = Some (VString s)"
proof (cases "rd_attrs d key")
  case None
  with assms show ?thesis by (simp add: d_Get_def read_field_def)
next
  case (Some v)
  with assms show ?thesis by (cases v) (simp_all add: d_Get_def read_field_def)
qed

lemma Get_int_declared:
  assumes "rd_schema d key = Some TypeInt"
  shows "\<exists>i. d_Get d key = Some (VInt i)"
proof (cases "rd_attrs d key")
  case None
  with assms show ?thesis by (simp add: d_Get_def read_field_def)
next
  case (Some v)
  with assms show ?thesis by (cases v) (simp_all add: d_Get_def read_field_def)
qed

lemma Get_bool_declared:
  assumes "rd_schema d key = Some TypeBool"
  shows "\<exists>b. d_Get d key = Some (VBool b)"
proof (cases "rd_attrs d key")
  case None
  with assms have "d_Get d key = Some (VBool False)" by (simp add: d_Get_def read_field_def)
  then show ?thesis by blast
next
  case (Some v)
  with assms have "d_Get d key = Some (VBool False) \<or> d_Get d key = Some v \<and> type_of v = TypeBool"
    by (simp add: d_Get_def read_field_def)
  then show ?thesis by (cases v) auto
qed

lemma as_string_Some: "as_string v = Some s \<longleftrightarrow> v = Some (VString s)"
  by (cases v rule: as_string.cases) auto

lemma as_int_Some: "as_int v = Some i \<longleftrightarrow> v = Some (VInt i)"
  by (cases v rule: as_int.cases) auto

lemma as_bool_Some: "as_bool v = Some b \<longleftrightarrow> v = Some (VBool b)"
  by (cases v rule: as_bool.cases) auto

lemma dvd_read_success:
  assumes "resourceHyperVDvdRead c d h = Some ([], d', h')"
  shows "\<exists>ip res. d_Get d ''ip'' = Some (VString ip) \<and> GetDvd c h (rd_Id d) ip = (res, None)
           \<and> h' = h @ [Call_GetDvd (rd_Id d) ip]
           \<and> d' = d\<lparr>rd_attrs := (rd_attrs d)(''path'' \<mapsto> VString (Dvd_Path res),
                                               ''exists'' \<mapsto> VBool (Dvd_Path res \<noteq> []))\<rparr>"
proof -
  from assms obtain ip where ip: "as_string (d_Get d ''ip'') = Some ip"
    by (cases "as_string (d_Get d ''ip'')") (simp_all add: resourceHyperVDvdRead_def)
  obtain res e where l: "GetDvd c h (rd_Id d) ip = (res, e)" by (cases "GetDvd c h (rd_Id d) ip") auto
  have e: "e = None"
    using assms ip l by (cases e) (simp_all add: resourceHyperVDvdRead_def Let_def diag_FromErr_not_Nil)
  have "h' = h @ [Call_GetDvd (rd_Id d) ip]
      \<and> d' = d\<lparr>rd_attrs := (rd_attrs d)(''path'' \<mapsto> VString (Dvd_Path res),
                                         ''exists'' \<mapsto> VBool (Dvd_Path res \<noteq> []))\<rparr>"
    using assms ip l e
    by (cases "Dvd_Path res = []") (auto simp: resourceHyperVDvdRead_def Let_def set_step)
  with ip l e show ?thesis by (auto simp: as_string_Some)
qed

lemma dvd_read_total:
  assumes "rd_schema d = resourceHyperVDvd_Schema" and "d_Get d ''ip'' = Some (VString ip)"
    and "GetDvd c h (rd_Id d) ip = (res, None)"
  shows "resourceHyperVDvdRead c d h
           = Some ([], d\<lparr>rd_attrs := (rd_attrs d)(''path'' \<mapsto> VString (Dvd_Path res),
                                                   ''exists'' \<mapsto> VBool (Dvd_Path res \<noteq> []))\<rparr>,
                   h @ [Call_GetDvd (rd_Id d) ip])"
  using assms
  by (simp add: resourceHyperVDvdRead_def Let_def d_Set_def dvd_schema_simps)

lemma vhd_read_attrs_exists: "vhd_read_attrs api vhd m ''exists'' = Some (VBool (Vhd_Path vhd \<noteq> []))"
  by (simp add: vhd_read_attrs_def Let_def)

subsection \<open>The resource reads report whether the path was found\<close>

text \<open>
  Claim C2. A read of the VHD resource or of the DVD resource that returns no diagnostic
  has stored \<open>exists\<close> as true exactly when the \<open>Path\<close> of the looked-up result is not
  empty. With the resource's own schema every read whose lookup succeeds is such a read:
  a lookup that answers the zero value (empty \<open>Path\<close>) gives \<open>exists = false\<close> and no error.
\<close>

theorem C2_read_exists:
  "(\<forall>d' h'. resourceHyperVVhdRead api c d h = Some ([], d', h') \<longrightarrow>
      (\<exists>vhd. GetVhd c h (rd_Id d) = (vhd, None)
            \<and> rd_attrs d' ''exists'' = Some (VBool (Vhd_Path vhd \<noteq> []))))
   \<and> (\<forall>d' h'. resourceHyperVDvdRead c d h = Some ([], d', h') \<longrightarrow>
      (\<exists>ip res. d_Get d ''ip'' = Some (VString ip) \<and> GetDvd c h (rd_Id d) ip = (res, None)
            \<and> rd_attrs d' ''exists'' = Some (VBool (Dvd_Path res \<noteq> []))))
   \<and> (\<forall>vhd. rd_schema d = resourceHyperVVhd_Schema \<and> GetVhd c h (rd_Id d) = (vhd, None) \<longrightarrow>
      (\<exists>d'. resourceHyperVVhdRead api c d h = Some ([], d', h @ [Call_GetVhd (rd_Id d)])
            \<and> rd_attrs d' ''exists'' = Some (VBool (Vhd_Path vhd \<noteq> []))))
   \<and> (\<forall>ip res. rd_schema d = resourceHyperVDvd_Schema \<and> d_Get d ''ip'' = Some (VString ip)
         \<and> GetDvd c h (rd_Id d) ip = (res, None) \<longrightarrow>
      (\<exists>d'. resourceHyperVDvdRead c d h = Some ([], d', h @ [Call_GetDvd (rd_Id d) ip])
            \<and> rd_attrs d' ''exists'' = Some (VBool (Dvd_Path res \<noteq> []))))"
proof (intro conjI allI impI)
  fix d' h'
  assume "resourceHyperVVhdRead api c d h = Some ([], d', h')"
  from vhd_read_success [OF this] show "\<exists>vhd. GetVhd c h (rd_Id d) = (vhd, None)
      \<and> rd_attrs d' ''exists'' = Some (VBool (Vhd_Path vhd \<noteq> []))"
    by (auto simp: vhd_read_attrs_exists)
next
  fix d' h'
  assume "resourceHyperVDvdRead c d h = Some ([], d', h')"
  from dvd_read_success [OF this] show "\<exists>ip res. d_Get d ''ip'' = Some (VString ip)
      \<and> GetDvd c h (rd_Id d) ip = (res, None) \<and> rd_attrs d' ''exists'' = Some (VBool (Dvd_Path res \<noteq> []))"
    by auto
next
  fix vhd
  assume "rd_schema d = resourceHyperVVhd_Schema \<and> GetVhd c h (rd_Id d) = (vhd, None)"
  then show "\<exists>d'. resourceHyperVVhdRead api c d h = Some ([], d', h @ [Call_GetVhd (rd_Id d)])
      \<and> rd_attrs d' ''exists'' = Some (VBool (Vhd_Path vhd \<noteq> []))"
    by (simp add: vhd_read_total vhd_read_attrs_exists)
next
  fix ip res
  assume "rd_schema d = resourceHyperVDvd_Schema \<and> d_Get d ''ip'' = Some (VString ip)
     \<and> GetDvd c h (rd_Id d) ip = (res, None)"
  then show "\<exists>d'. resourceHyperVDvdRead c d h = Some ([], d', h @ [Call_GetDvd (rd_Id d) ip])
      \<and> rd_attrs d' ''exists'' = Some (VBool (Dvd_Path res \<noteq> []))"
    by (simp add: dvd_read_total)
qed

theorem C2_read_exists_witness:
  "rd_schema (example_data resourceHyperVVhd_Schema False Map.empty) = resourceHyperVVhd_Schema
   \<and> GetVhd (example_Client None False zero_Vhd) [] (rd_Id (example_data resourceHyperVVhd_Schema False Map.empty))
        = (zero_Vhd, None)
   \<and> (\<exists>d'. resourceHyperVVhdRead example_api (example_Client None False zero_Vhd)
              (example_data resourceHyperVVhd_Schema False Map.empty) []
             = Some ([], d', [Call_GetVhd ''d.vhdx''])
           \<and> rd_attrs d' ''exists'' = Some (VBool False))
   \<and> rd_schema (example_data resourceHyperVDvd_Schema False [''ip'' \<mapsto> VString ''10.0.0.1'']) = resourceHyperVDvd_Schema
   \<and> GetDvd (example_Client None False (example_Vhd ''c.iso'')) []
         (rd_Id (example_data resourceHyperVDvd_Schema False [''ip'' \<mapsto> VString ''10.0.0.1''])) ''10.0.0.1''
        = (\<lparr>Dvd_Path = ''c.iso'', Dvd_Ip = ''10.0.0.1''\<rparr>, None)
   \<and> (\<exists>d'. resourceHyperVDvdRead (example_Client None False (example_Vhd ''c.iso''))
              (example_data resourceHyperVDvd_Schema False [''ip'' \<mapsto> VString ''10.0.0.1'']) []
             = Some ([], d', [Call_GetDvd ''d.vhdx'' ''10.0.0.1''])
           \<and> rd_attrs d' ''exists'' = Some (VBool True))"
proof -
  let ?d = "example_data resourceHyperVVhd_Schema False Map.empty"
  let ?c = "example_Client None False zero_Vhd"
  let ?e = "example_data resourceHyperVDvd_Schema False [''ip'' \<mapsto> VString ''10.0.0.1'']"
  let ?k = "example_Client None False (example_Vhd ''c.iso'')"
  have d1: "rd_schema ?d = resourceHyperVVhd_Schema" and d2: "rd_Id ?d = ''d.vhdx''"
    by (simp_all add: example_data_def)
  have d3: "GetVhd ?c [] (rd_Id ?d) = (zero_Vhd, None)"
    by (simp add: example_Client_def failing_def)
  have d4: "Vhd_Path zero_Vhd = []" by (simp add: zero_Vhd_def)
  have e1: "rd_schema ?e = resourceHyperVDvd_Schema" and e2: "rd_Id ?e = ''d.vhdx''"
    by (simp_all add: example_data_def)
  have e3: "d_Get ?e ''ip'' = Some (VString ''10.0.0.1'')"
    by (simp add: example_data_def d_Get_def read_field_def dvd_schema_simps)
  have e4: "GetDvd ?k [] (rd_Id ?e) ''10.0.0.1'' = (\<lparr>Dvd_Path = ''c.iso'', Dvd_Ip = ''10.0.0.1''\<rparr>, None)"
    by (simp add: example_Client_def failing_def example_Vhd_def)
  from C2_read_exists [of example_api ?c ?d "[]"] d1 d3
  have a: "\<exists>d'. resourceHyperVVhdRead example_api ?c ?d [] = Some ([], d', [] @ [Call_GetVhd (rd_Id ?d)])
      \<and> rd_attrs d' ''exists'' = Some (VBool (Vhd_Path zero_Vhd \<noteq> []))"
    by blast
  from C2_read_exists [of example_api ?k ?e "[]"] e1 e3 e4
  have b: "\<exists>d'. resourceHyperVDvdRead ?k ?e [] = Some ([], d', [] @ [Call_GetDvd (rd_Id ?e) ''10.0.0.1''])
      \<and> rd_attrs d' ''exists''
            = Some (VBool (Dvd_Path \<lparr>Dvd_Path = ''c.iso'', Dvd_Ip = ''10.0.0.1''\<rparr> \<noteq> []))"
    by blast
  from a b d1 d2 d3 d4 e1 e2 e4 show ?thesis by simp
qed

lemma vhd_read_attrs_common:
  "vhd_read_attrs api vhd m ''path'' = Some (VString (Vhd_Path vhd))"
  "vhd_read_attrs api vhd m ''vhd_type'' = Some (VString (VhdType_name api (Vhd_VhdType vhd)))"
  by (simp_all add: vhd_read_attrs_def Let_def)

lemma vhd_read_attrs_differencing:
  assumes "Vhd_VhdType vhd = VhdType_Differencing api"
  shows "vhd_read_attrs api vhd m ''parent_path'' = Some (VString (Vhd_ParentPath vhd))"
    and "vhd_read_attrs api vhd m ''size'' = m ''size''"
    and "vhd_read_attrs api vhd m ''block_size'' = m ''block_size''"
    and "vhd_read_attrs api vhd m ''logical_sector_size'' = m ''logical_sector_size''"
    and "vhd_read_attrs api vhd m ''physical_sector_size'' = m ''physical_sector_size''"
  using assms by (simp_all add: vhd_read_attrs_def Let_def)

lemma vhd_read_attrs_other:
  assumes "Vhd_VhdType vhd \<noteq> VhdType_Differencing api"
  shows "vhd_read_attrs api vhd m ''parent_path'' = m ''parent_path''"
    and "vhd_read_attrs api vhd m ''size'' = Some (VInt (sint (Vhd_Size vhd)))"
    and "vhd_read_attrs api vhd m ''block_size'' = Some (VInt (uint (Vhd_BlockSize vhd)))"
    and "vhd_read_attrs api vhd m ''logical_sector_size'' = Some (VInt (uint (Vhd_LogicalSectorSize vhd)))"
    and "vhd_read_attrs api vhd m ''physical_sector_size'' = Some (VInt (uint (Vhd_PhysicalSectorSize vhd)))"
  using assms by (simp_all add: vhd_read_attrs_def Let_def)

lemma vhd_read_attrs_frame:
  assumes "k \<notin> {''path'', ''exists'', ''vhd_type'', ''parent_path'', ''size'', ''block_size'',
                 ''logical_sector_size'', ''physical_sector_size''}"
  shows "vhd_read_attrs api vhd m k = m k"
  using assms by (simp add: vhd_read_attrs_def Let_def)

subsection \<open>What a successful VHD read writes\<close>

text \<open>
  Claim C10. A VHD read that returns no diagnostic has stored \<open>path\<close>, \<open>exists\<close> and
  \<open>vhd_type\<close>. If the type of the result is \<open>Differencing\<close> it has stored \<open>parent_path\<close>
  and left \<open>size\<close>, \<open>block_size\<close>, \<open>logical_sector_size\<close> and \<open>physical_sector_size\<close>
  as they were; otherwise it has stored those four and left \<open>parent_path\<close> as it was.
  Every other attribute, the identifier, the prior state and the schema are unchanged.
\<close>

theorem C10_read_frame:
  assumes "resourceHyperVVhdRead api c d h = Some ([], d', h')"
    and "GetVhd c h (rd_Id d) = (vhd, e)"
  shows "rd_attrs d' ''path'' = Some (VString (Vhd_Path vhd))
       \<and> rd_attrs d' ''exists'' = Some (VBool (Vhd_Path vhd \<noteq> []))
       \<and> rd_attrs d' ''vhd_type'' = Some (VString (VhdType_name api (Vhd_VhdType vhd)))
       \<and> (if Vhd_VhdType vhd = VhdType_Differencing api
          then rd_attrs d' ''parent_path'' = Some (VString (Vhd_ParentPath vhd))
             \<and> rd_attrs d' ''size'' = rd_attrs d ''size''
             \<and> rd_attrs d' ''block_size'' = rd_attrs d ''block_size''
             \<and> rd_attrs d' ''logical_sector_size'' = rd_attrs d ''logical_sector_size''
             \<and> rd_attrs d' ''physical_sector_size'' = rd_attrs d ''physical_sector_size''
          else rd_attrs d' ''size'' = Some (VInt (sint (Vhd_Size vhd)))
             \<and> rd_attrs d' ''block_size'' = Some (VInt (uint (Vhd_BlockSize vhd)))
             \<and> rd_attrs d' ''logical_sector_size'' = Some (VInt (uint (Vhd_LogicalSectorSize vhd)))
             \<and> rd_attrs d' ''physical_sector_size'' = Some (VInt (uint (Vhd_PhysicalSectorSize vhd)))
             \<and> rd_attrs d' ''parent_path'' = rd_attrs d ''parent_path'')
       \<and> (\<forall>k. k \<notin> {''path'', ''exists'', ''vhd_type'', ''parent_path'', ''size'', ''block_size'',
                      ''logical_sector_size'', ''physical_sector_size''} \<longrightarrow> rd_attrs d' k = rd_attrs d k)
       \<and> rd_Id d' = rd_Id d \<and> rd_state d' = rd_state d \<and> rd_schema d' = rd_schema d"
proof -
  from vhd_read_success [OF assms(1)] assms(2)
  have d': "d' = d\<lparr>rd_attrs := vhd_read_attrs api vhd (rd_attrs d)\<rparr>" by auto
  show ?thesis
  proof (cases "Vhd_VhdType vhd = VhdType_Differencing api")
    case True
    then show ?thesis
      unfolding d'
      by (simp add: vhd_read_attrs_common vhd_read_attrs_exists vhd_read_attrs_differencing
            vhd_read_attrs_frame del: insert_iff)
  next
    case False
    then show ?thesis
      unfolding d'
      by (simp add: vhd_read_attrs_common vhd_read_attrs_exists vhd_read_attrs_other
            vhd_read_attrs_frame del: insert_iff)
  qed
qed

theorem C10_read_frame_witness:
  "resourceHyperVVhdRead example_api (example_Client None False (example_Vhd ''d.vhdx''))
      (example_data resourceHyperVVhd_Schema False [''size'' \<mapsto> VInt 8192, ''parent_path'' \<mapsto> VString ''p.vhdx'']) []
    = Some ([], (example_data resourceHyperVVhd_Schema False [''size'' \<mapsto> VInt 8192, ''parent_path'' \<mapsto> VString ''p.vhdx''])
                  \<lparr>rd_attrs := vhd_read_attrs example_api (example_Vhd ''d.vhdx'')
                      [''size'' \<mapsto> VInt 8192, ''parent_path'' \<mapsto> VString ''p.vhdx'']\<rparr>,
            [Call_GetVhd ''d.vhdx''])
   \<and> vhd_read_attrs example_api (example_Vhd ''d.vhdx'')
        [''size'' \<mapsto> VInt 8192, ''parent_path'' \<mapsto> VString ''p.vhdx''] ''size'' = Some (VInt 4096)
   \<and> vhd_read_attrs example_api (example_Vhd ''d.vhdx'')
        [''size'' \<mapsto> VInt 8192, ''parent_path'' \<mapsto> VString ''p.vhdx''] ''parent_path'' = Some (VString ''p.vhdx'')
   \<and> resourceHyperVVhdRead example_api
        (example_Client None False ((example_Vhd ''d.vhdx'')\<lparr>Vhd_ParentPath := ''q.vhdx'', Vhd_VhdType := 4\<rparr>))
        (example_data resourceHyperVVhd_Schema False [''size'' \<mapsto> VInt 8192, ''parent_path'' \<mapsto> VString ''p.vhdx'']) []
    = Some ([], (example_data resourceHyperVVhd_Schema False [''size'' \<mapsto> VInt 8192, ''parent_path'' \<mapsto> VString ''p.vhdx''])
                  \<lparr>rd_attrs := vhd_read_attrs example_api
                      ((example_Vhd ''d.vhdx'')\<lparr>Vhd_ParentPath := ''q.vhdx'', Vhd_VhdType := 4\<rparr>)
                      [''size'' \<mapsto> VInt 8192, ''parent_path'' \<mapsto> VString ''p.vhdx'']\<rparr>,
            [Call_GetVhd ''d.vhdx''])
   \<and> vhd_read_attrs example_api ((example_Vhd ''d.vhdx'')\<lparr>Vhd_ParentPath := ''q.vhdx'', Vhd_VhdType := 4\<rparr>)
        [''size'' \<mapsto> VInt 8192, ''parent_path'' \<mapsto> VString ''p.vhdx''] ''size'' = Some (VInt 8192)
   \<and> vhd_read_attrs example_api ((example_Vhd ''d.vhdx'')\<lparr>Vhd_ParentPath := ''q.vhdx'', Vhd_VhdType := 4\<rparr>)
        [''size'' \<mapsto> VInt 8192, ''parent_path'' \<mapsto> VString ''p.vhdx''] ''parent_path'' = Some (VString ''q.vhdx'')"
proof -
  let ?m = "[''size'' \<mapsto> VInt 8192, ''parent_path'' \<mapsto> VString ''p.vhdx'']"
  let ?d = "example_data resourceHyperVVhd_Schema False ?m"
  let ?v = "example_Vhd ''d.vhdx''"
  let ?w = "(example_Vhd ''d.vhdx'')\<lparr>Vhd_ParentPath := ''q.vhdx'', Vhd_VhdType := 4\<rparr>"
  have s: "rd_schema ?d = resourceHyperVVhd_Schema" and i: "rd_Id ?d = ''d.vhdx''"
    and m: "rd_attrs ?d = ?m"
    by (simp_all add: example_data_def)
  have gv: "GetVhd (example_Client None False ?v) [] (rd_Id ?d) = (?v, None)"
    and gw: "GetVhd (example_Client None False ?w) [] (rd_Id ?d) = (?w, None)"
    by (simp_all add: example_Client_def failing_def)
  have rv: "resourceHyperVVhdRead example_api (example_Client None False ?v) ?d []
      = Some ([], ?d\<lparr>rd_attrs := vhd_read_attrs example_api ?v ?m\<rparr>, [Call_GetVhd ''d.vhdx''])"
    using vhd_read_total [OF s gv, of example_api] by (simp add: i m)
  have rw: "resourceHyperVVhdRead example_api (example_Client None False ?w) ?d []
      = Some ([], ?d\<lparr>rd_attrs := vhd_read_attrs example_api ?w ?m\<rparr>, [Call_GetVhd ''d.vhdx''])"
    using vhd_read_total [OF s gw, of example_api] by (simp add: i m)
  have tv: "Vhd_VhdType ?v \<noteq> VhdType_Differencing example_api" "sint (Vhd_Size ?v) = 4096"
    by (simp_all add: example_Vhd_def example_api_def)
  have tw: "Vhd_VhdType ?w = VhdType_Differencing example_api" "Vhd_ParentPath ?w = ''q.vhdx''"
    by (simp_all add: example_api_def)
  from C10_read_frame [OF rv gv] tv
  have a: "vhd_read_attrs example_api ?v ?m ''size'' = Some (VInt 4096)
      \<and> vhd_read_attrs example_api ?v ?m ''parent_path'' = Some (VString ''p.vhdx'')"
    by (simp add: m)
  from C10_read_frame [OF rw gw] tw
  have b: "vhd_read_attrs example_api ?w ?m ''size'' = Some (VInt 8192)
      \<and> vhd_read_attrs example_api ?w ?m ''parent_path'' = Some (VString ''q.vhdx'')"
    by (simp add: m)
  from rv rw a b show ?thesis by blast
qed

subsection \<open>The DVD data source and the attribute \<open>exists\<close>\<close>

text \<open>
  Claim C1, at the inputs where the code departs from it. The data source is read with
  its own schema and a set path. When the lookup answers a non-empty \<open>Path\<close>, the read
  returns the error of setting \<open>exists\<close>, an address that the schema does not have, and
  nothing is stored under \<open>exists\<close>, where the claim has \<open>exists = false\<close> stored; when
  the lookup answers an empty \<open>Path\<close>, the read returns the same error and again
  nothing is stored, where the claim has \<open>exists = true\<close> stored.
\<close>

theorem C1_exists_not_stored:
  "Vhd_Path (example_Vhd ''c.iso'') \<noteq> []
   \<and> GetVhd (example_Client None False (example_Vhd ''c.iso'')) [] ''c.iso'' = (example_Vhd ''c.iso'', None)
   \<and> diags_of (datasourceHyperVDvdRead (example_Client None False (example_Vhd ''c.iso''))
           (example_data dataSourceHyperVDvd_Schema False [''path'' \<mapsto> VString ''c.iso'']) [])
       = diag_FromErr (fmt_Errorf (''Invalid address to set: []string{'' @ strconv_Quote ''exists'' @ ''}''))
   \<and> rd_attrs (data_of (example_data dataSourceHyperVDvd_Schema False [''path'' \<mapsto> VString ''c.iso''])
        (datasourceHyperVDvdRead (example_Client None False (example_Vhd ''c.iso''))
           (example_data dataSourceHyperVDvd_Schema False [''path'' \<mapsto> VString ''c.iso'']) [])) ''exists''
       = None
   \<and> Vhd_Path zero_Vhd = []
   \<and> GetVhd (example_Client None False zero_Vhd) [] ''c.iso'' = (zero_Vhd, None)
   \<and> diags_of (datasourceHyperVDvdRead (example_Client None False zero_Vhd)
           (example_data dataSourceHyperVDvd_Schema False [''path'' \<mapsto> VString ''c.iso'']) [])
       = diag_FromErr (fmt_Errorf (''Invalid address to set: []string{'' @ strconv_Quote ''exists'' @ ''}''))
   \<and> rd_attrs (data_of (example_data dataSourceHyperVDvd_Schema False [''path'' \<mapsto> VString ''c.iso''])
        (datasourceHyperVDvdRead (example_Client None False zero_Vhd)
           (example_data dataSourceHyperVDvd_Schema False [''path'' \<mapsto> VString ''c.iso'']) [])) ''exists''
       = None"
  by (simp add: datasourceHyperVDvdRead_def example_Client_def failing_def example_Vhd_def zero_Vhd_def
        example_data_def d_GetOk_def d_Get_def read_field_def d_Set_def dataSource_schema_simps
        data_of_def diags_of_def)

lemma configured_exists:
  assumes "rd_schema d = resourceHyperVVhd_Schema"
  shows "\<exists>a. configured d a"
proof -
  from assms have s: "rd_schema d ''source'' = Some TypeString" "rd_schema d ''source_vm'' = Some TypeString"
    "rd_schema d ''vhd_type'' = Some TypeString" "rd_schema d ''parent_path'' = Some TypeString"
    and i: "rd_schema d ''source_disk'' = Some TypeInt" "rd_schema d ''size'' = Some TypeInt"
    "rd_schema d ''block_size'' = Some TypeInt" "rd_schema d ''logical_sector_size'' = Some TypeInt"
    "rd_schema d ''physical_sector_size'' = Some TypeInt"
    and b: "rd_schema d ''exists'' = Some TypeBool"
    by (simp_all add: vhd_schema_simps)
  from s [THEN Get_string_declared] i [THEN Get_int_declared] b [THEN Get_bool_declared]
  obtain v1 v2 v3 v4 v5 v6 v7 v8 v9 v10 where
    "d_Get d ''source'' = Some (VString v1)" "d_Get d ''source_vm'' = Some (VString v2)"
    "d_Get d ''vhd_type'' = Some (VString v3)" "d_Get d ''parent_path'' = Some (VString v4)"
    "d_Get d ''source_disk'' = Some (VInt v5)" "d_Get d ''size'' = Some (VInt v6)"
    "d_Get d ''block_size'' = Some (VInt v7)" "d_Get d ''logical_sector_size'' = Some (VInt v8)"
    "d_Get d ''physical_sector_size'' = Some (VInt v9)" "d_Get d ''exists'' = Some (VBool v10)"
    by blast
  then have "configured d \<lparr>cfg_source = v1, cfg_source_vm = v2, cfg_source_disk = v5, cfg_vhd_type = v3,
      cfg_parent_path = v4, cfg_size = v6, cfg_block_size = v7, cfg_logical_sector_size = v8,
      cfg_physical_sector_size = v9, cfg_exists = v10\<rparr>"
    by (simp add: configured_def)
  then show ?thesis ..
qed

subsection \<open>The create and update handlers, phase by phase\<close>

lemma create_exists_error:
  assumes "d_GetOk d ''path'' = (Some (VString p), True)" and "rd_IsNewResource d"
    and "VhdExists c h p = (ex, Some e)"
  shows "resourceHyperVVhdCreate api c d h
           = Some (diag_FromErr (checking_for_existing p e), d, h @ [Call_VhdExists p])"
  using assms by (simp add: resourceHyperVVhdCreate_def)

lemma create_already_exists:
  assumes "d_GetOk d ''path'' = (Some (VString p), True)" and "rd_IsNewResource d"
    and "VhdExists c h p = (ex, None)" and "Exists ex"
  shows "resourceHyperVVhdCreate api c d h
           = Some (diag_FromErr (already_exists p), d, h @ [Call_VhdExists p])"
  using assms by (simp add: resourceHyperVVhdCreate_def)

lemma create_after_precheck:
  assumes "d_GetOk d ''path'' = (Some (VString p), True)"
    and "rd_IsNewResource d \<longrightarrow> (\<exists>ex. VhdExists c h p = (ex, None) \<and> \<not> Exists ex)"
    and "configured d a"
  shows "resourceHyperVVhdCreate api c d h =
     (case call_err c (precheck_history d h p) (create_call api p a) of
        Some err \<Rightarrow> Some (diag_FromErr err, d, precheck_history d h p @ [create_call api p a])
      | None \<Rightarrow>
          if 0 < (word_of_int (cfg_size a) :: 64 word) \<and> cfg_parent_path a = [] then
            (case call_err c (precheck_history d h p @ [create_call api p a]) (resize_call p a) of
               Some err \<Rightarrow> Some (diag_FromErr err, d,
                                  precheck_history d h p @ [create_call api p a, resize_call p a])
             | None \<Rightarrow> resourceHyperVVhdRead api c (d_SetId d p)
                         (precheck_history d h p @ [create_call api p a, resize_call p a]))
          else resourceHyperVVhdRead api c (d_SetId d p) (precheck_history d h p @ [create_call api p a]))"
proof -
  let ?h1 = "precheck_history d h p"
  have pre: "(if rd_IsNewResource d then
                (case VhdExists c h p of
                   (existing, Some err) \<Rightarrow> Some (checking_for_existing p err)
                 | (existing, None) \<Rightarrow> if Exists existing then Some (already_exists p) else None)
              else None) = None"
    using assms(2) by auto
  show ?thesis
    by (cases "call_err c ?h1 (create_call api p a)";
        cases "0 < (word_of_int (cfg_size a) :: 64 word)"; cases "cfg_parent_path a = []";
        cases "call_err c (?h1 @ [create_call api p a]) (resize_call p a)")
       (use assms(1,3) in \<open>simp_all add: resourceHyperVVhdCreate_def pre configured_def create_call_def
          resize_call_def precheck_history_def [symmetric] Let_def\<close>)
qed

lemma update_phases:
  assumes "configured d a"
  shows "resourceHyperVVhdUpdate api c d h =
     (let h1 = (if update_recreates d a then h @ [create_call api (rd_Id d) a] else h) in
      case (if update_recreates d a then call_err c h (create_call api (rd_Id d) a) else None) of
        Some err \<Rightarrow> Some (diag_FromErr err, d, h1)
      | None \<Rightarrow>
          if 0 < (word_of_int (cfg_size a) :: 64 word) \<and> cfg_parent_path a = []
             \<and> (\<not> cfg_exists a \<or> d_HasChange d ''size'') then
            (case call_err c h1 (resize_call (rd_Id d) a) of
               Some err \<Rightarrow> Some (diag_FromErr err, d, h1 @ [resize_call (rd_Id d) a])
             | None \<Rightarrow> resourceHyperVVhdRead api c d (h1 @ [resize_call (rd_Id d) a]))
          else resourceHyperVVhdRead api c d h1)"
proof -
  let ?h1 = "if update_recreates d a then h @ [create_call api (rd_Id d) a] else h"
  show ?thesis
    by (cases "update_recreates d a";
        cases "call_err c h (create_call api (rd_Id d) a)";
        cases "0 < (word_of_int (cfg_size a) :: 64 word)"; cases "cfg_parent_path a = []";
        cases "\<not> cfg_exists a \<or> d_HasChange d ''size''";
        cases "call_err c ?h1 (resize_call (rd_Id d) a)")
       (use assms in \<open>simp_all add: resourceHyperVVhdUpdate_def configured_def create_call_def
          resize_call_def update_recreates_def Let_def\<close>)
qed

lemma calls_of_append: "calls_of h (Some (ds, d', h @ xs)) = xs"
  by (simp add: calls_of_def)

lemma precheck_history_append:
  "precheck_history d h p = h @ (if rd_IsNewResource d then [Call_VhdExists p] else [])"
  by (simp add: precheck_history_def)

lemma is_call_simps:
  "is_CreateOrUpdateVhd (create_call api p a)" "\<not> is_ResizeVhd (create_call api p a)"
  "is_ResizeVhd (resize_call p a)" "\<not> is_CreateOrUpdateVhd (resize_call p a)"
  by (simp_all add: create_call_def resize_call_def)

text \<open>The calls of a create whose pre-check passes and whose create call succeeds.\<close>

lemma create_calls:
  assumes "d_GetOk d ''path'' = (Some (VString p), True)"
    and "rd_IsNewResource d \<longrightarrow> (\<exists>ex. VhdExists c h p = (ex, None) \<and> \<not> Exists ex)"
    and "configured d a"
    and "call_err c (precheck_history d h p) (create_call api p a) = None"
  shows "\<exists>ds d' rest. resourceHyperVVhdCreate api c d h
            = Some (ds, d', h @ (if rd_IsNewResource d then [Call_VhdExists p] else [])
                     @ [create_call api p a]
                     @ (if 0 < (word_of_int (cfg_size a) :: 64 word) \<and> cfg_parent_path a = []
                        then [resize_call p a] else [])
                     @ rest)
          \<and> (rest = [] \<or> rest = [Call_GetVhd p])"
proof -
  let ?h1 = "precheck_history d h p"
  note r = create_after_precheck [OF assms(1-3), of api]
  have id: "rd_Id (d_SetId d p) = p" by (simp add: d_SetId_def)
  show ?thesis
  proof (cases "0 < (word_of_int (cfg_size a) :: 64 word) \<and> cfg_parent_path a = []")
    case True
    show ?thesis
    proof (cases "call_err c (?h1 @ [create_call api p a]) (resize_call p a)")
      case None
      from vhd_read_history [of api c "d_SetId d p" "?h1 @ [create_call api p a, resize_call p a]"]
      obtain ds d' where "resourceHyperVVhdRead api c (d_SetId d p) (?h1 @ [create_call api p a, resize_call p a])
          = Some (ds, d', (?h1 @ [create_call api p a, resize_call p a]) @ [Call_GetVhd p])"
        by (auto simp: id)
      with True None assms(4) show ?thesis
        unfolding r by (simp add: precheck_history_append)
    next
      case (Some e)
      with True assms(4) show ?thesis
        unfolding r by (simp add: precheck_history_append)
    qed
  next
    case False
    from vhd_read_history [of api c "d_SetId d p" "?h1 @ [create_call api p a]"]
    obtain ds d' where "resourceHyperVVhdRead api c (d_SetId d p) (?h1 @ [create_call api p a])
        = Some (ds, d', (?h1 @ [create_call api p a]) @ [Call_GetVhd p])"
      by (auto simp: id)
    with False assms(4) show ?thesis
      unfolding r by (auto simp: precheck_history_append)
  qed
qed

lemma update_calls:
  assumes "configured d a"
    and "update_recreates d a \<longrightarrow> call_err c h (create_call api (rd_Id d) a) = None"
  shows "\<exists>ds d' rest. resourceHyperVVhdUpdate api c d h
            = Some (ds, d', h @ (if update_recreates d a then [create_call api (rd_Id d) a] else [])
                     @ (if 0 < (word_of_int (cfg_size a) :: 64 word) \<and> cfg_parent_path a = []
                           \<and> (\<not> cfg_exists a \<or> d_HasChange d ''size'')
                        then [resize_call (rd_Id d) a] else [])
                     @ rest)
          \<and> (rest = [] \<or> rest = [Call_GetVhd (rd_Id d)])"
proof -
  let ?h1 = "if update_recreates d a then h @ [create_call api (rd_Id d) a] else h"
  have h1: "?h1 = h @ (if update_recreates d a then [create_call api (rd_Id d) a] else [])" by simp
  note r = update_phases [OF assms(1), of api c h]
  have e: "(if update_recreates d a then call_err c h (create_call api (rd_Id d) a) else None) = None"
    using assms(2) by simp
  show ?thesis
  proof (cases "0 < (word_of_int (cfg_size a) :: 64 word) \<and> cfg_parent_path a = []
                 \<and> (\<not> cfg_exists a \<or> d_HasChange d ''size'')")
    case True
    show ?thesis
    proof (cases "call_err c ?h1 (resize_call (rd_Id d) a)")
      case None
      from vhd_read_history [of api c d "?h1 @ [resize_call (rd_Id d) a]"]
      obtain ds d' where "resourceHyperVVhdRead api c d (?h1 @ [resize_call (rd_Id d) a])
          = Some (ds, d', (?h1 @ [resize_call (rd_Id d) a]) @ [Call_GetVhd (rd_Id d)])"
        by auto
      with True None e show ?thesis
        unfolding r Let_def by (cases "update_recreates d a") auto
    next
      case (Some err)
      with True e show ?thesis
        unfolding r Let_def by (cases "update_recreates d a") auto
    qed
  next
    case False
    from vhd_read_history [of api c d ?h1]
    obtain ds d' where "resourceHyperVVhdRead api c d ?h1 = Some (ds, d', ?h1 @ [Call_GetVhd (rd_Id d)])"
      by auto
    with False e show ?thesis
      unfolding r Let_def by (cases "update_recreates d a") auto
  qed
qed

lemma filter_resize_rest:
  "rest = [] \<or> rest = [Call_GetVhd p] \<Longrightarrow> filter is_ResizeVhd rest = []"
  by auto

lemma filter_create_rest:
  "rest = [] \<or> rest = [Call_GetVhd p] \<Longrightarrow> filter is_CreateOrUpdateVhd rest = []"
  by auto

lemma example_update_config:
  "configured (example_data resourceHyperVVhd_Schema False [''exists'' \<mapsto> VBool True, ''size'' \<mapsto> VInt 4096])
     \<lparr>cfg_source = [], cfg_source_vm = [], cfg_source_disk = 0, cfg_vhd_type = [],
      cfg_parent_path = [], cfg_size = 4096, cfg_block_size = 0, cfg_logical_sector_size = 0,
      cfg_physical_sector_size = 0, cfg_exists = True\<rparr>"
  by (simp add: configured_def example_data_def d_Get_def read_field_def vhd_schema_simps)

lemma example_update_unchanged:
  "\<not> d_HasChange (example_data resourceHyperVVhd_Schema False m) key"
  by (simp add: d_HasChange_def d_Get_def example_data_def)

text \<open>
  The handlers compare the size after its conversion to an unsigned 64-bit integer: the
  converted size is greater than 0 for every size that is not 0, a negative one too.
\<close>

lemma word64_pos_iff:
  "(0 < (word_of_int n :: 64 word)) = (n mod 2 ^ 64 \<noteq> 0)"
  by (simp add: word_greater_zero_iff word_of_int_eq_0_iff take_bit_eq_mod mod_eq_0_iff_dvd)

lemma word64_pos_in_range:
  assumes "- (2 ^ 63) \<le> n" and "n < 2 ^ 63"
  shows "(0 < (word_of_int n :: 64 word)) = (n \<noteq> 0)"
proof -
  have "n mod 2 ^ 64 = 0 \<longleftrightarrow> n = 0"
  proof
    assume "n mod 2 ^ 64 = 0"
    then obtain k where k: "n = 2 ^ 64 * k" by (auto simp: mod_eq_0_iff_dvd)
    with assms have "- 1 < k" "k < 1" by simp_all
    then have "k = 0" by simp
    with k show "n = 0" by simp
  qed simp
  then show ?thesis by (simp add: word64_pos_iff)
qed

subsection \<open>When the resize follows\<close>

text \<open>
  Claim C4 as stated fails for the update handler: with \<open>size = 4096\<close>, an empty
  \<open>parent_path\<close>, \<open>exists = true\<close> and no attribute changed, the update makes no call of
  \<open>ResizeVhd\<close> (its only call is the lookup of the read that ends it).
\<close>

theorem C4_counterexample:
  "d_Get (example_data resourceHyperVVhd_Schema False [''exists'' \<mapsto> VBool True, ''size'' \<mapsto> VInt 4096]) ''size''
      = Some (VInt 4096)
   \<and> d_Get (example_data resourceHyperVVhd_Schema False [''exists'' \<mapsto> VBool True, ''size'' \<mapsto> VInt 4096]) ''parent_path''
      = Some (VString [])
   \<and> 0 < (word_of_int 4096 :: 64 word)
   \<and> diags_of (resourceHyperVVhdUpdate example_api (example_Client None False (example_Vhd ''d.vhdx''))
        (example_data resourceHyperVVhd_Schema False [''exists'' \<mapsto> VBool True, ''size'' \<mapsto> VInt 4096]) []) = []
   \<and> calls_of [] (resourceHyperVVhdUpdate example_api (example_Client None False (example_Vhd ''d.vhdx''))
        (example_data resourceHyperVVhd_Schema False [''exists'' \<mapsto> VBool True, ''size'' \<mapsto> VInt 4096]) [])
      = [Call_GetVhd ''d.vhdx'']
   \<and> \<not> list_ex is_ResizeVhd (calls_of [] (resourceHyperVVhdUpdate example_api
        (example_Client None False (example_Vhd ''d.vhdx''))
        (example_data resourceHyperVVhd_Schema False [''exists'' \<mapsto> VBool True, ''size'' \<mapsto> VInt 4096]) []))"
proof -
  let ?d = "example_data resourceHyperVVhd_Schema False [''exists'' \<mapsto> VBool True, ''size'' \<mapsto> VInt 4096]"
  let ?c = "example_Client None False (example_Vhd ''d.vhdx'')"
  have s: "rd_schema ?d = resourceHyperVVhd_Schema" and i: "rd_Id ?d = ''d.vhdx''"
    by (simp_all add: example_data_def)
  have g: "GetVhd ?c [] (rd_Id ?d) = (example_Vhd ''d.vhdx'', None)"
    by (simp add: example_Client_def failing_def)
  have u: "resourceHyperVVhdUpdate example_api ?c ?d [] = resourceHyperVVhdRead example_api ?c ?d []"
    unfolding update_phases [OF example_update_config]
    by (simp add: update_recreates_def example_update_unchanged)
  have r: "resourceHyperVVhdUpdate example_api ?c ?d []
      = Some ([], ?d\<lparr>rd_attrs := vhd_read_attrs example_api (example_Vhd ''d.vhdx'') (rd_attrs ?d)\<rparr>,
              [Call_GetVhd ''d.vhdx''])"
    unfolding u using vhd_read_total [OF s g, of example_api] by (simp add: i)
  have a: "d_Get ?d ''size'' = Some (VInt 4096)" "d_Get ?d ''parent_path'' = Some (VString [])"
    by (simp_all add: example_data_def d_Get_def read_field_def vhd_schema_simps)
  have w: "0 < (word_of_int 4096 :: 64 word)" by simp
  from a w show ?thesis unfolding r by (simp add: diags_of_def calls_of_def)
qed

text \<open>
  Claim C4, amended. Both handlers convert the size to an unsigned 64-bit integer and
  compare the converted size with 0, so the size condition holds for every size of the
  Go \<open>int\<close> range that is not 0, a negative one too. In the create handler, once the
  path is set, the pre-check has not found the disk and the call of \<open>CreateOrUpdateVhd\<close>
  has succeeded, that call is the only create call and \<open>ResizeVhd\<close> is called (once, with
  the path and the converted size) if and only if the converted size is greater than 0
  and \<open>parent_path\<close> is empty; so a create with size 0 and a parent path makes the create
  call and no resize. In the update handler, once the call of \<open>CreateOrUpdateVhd\<close> (if one
  is due) has succeeded, \<open>ResizeVhd\<close> is called if and only if the converted size is
  greater than 0, \<open>parent_path\<close> is empty and, in addition, \<open>exists\<close> is false or the
  size has changed.
\<close>

theorem C4_resize_condition:
  assumes "configured d a"
  shows "(d_GetOk d ''path'' = (Some (VString p), True)
          \<and> (rd_IsNewResource d \<longrightarrow> (\<exists>ex. VhdExists c h p = (ex, None) \<and> \<not> Exists ex))
          \<and> call_err c (precheck_history d h p) (create_call api p a) = None
          \<longrightarrow> filter is_CreateOrUpdateVhd (calls_of h (resourceHyperVVhdCreate api c d h)) = [create_call api p a]
            \<and> filter is_ResizeVhd (calls_of h (resourceHyperVVhdCreate api c d h))
                = (if 0 < (word_of_int (cfg_size a) :: 64 word) \<and> cfg_parent_path a = []
                   then [resize_call p a] else []))
       \<and> ((update_recreates d a \<longrightarrow> call_err c h (create_call api (rd_Id d) a) = None)
          \<longrightarrow> filter is_ResizeVhd (calls_of h (resourceHyperVVhdUpdate api c d h))
                = (if 0 < (word_of_int (cfg_size a) :: 64 word) \<and> cfg_parent_path a = []
                      \<and> (\<not> cfg_exists a \<or> d_HasChange d ''size'')
                   then [resize_call (rd_Id d) a] else []))
       \<and> (0 < (word_of_int (cfg_size a) :: 64 word)) = (cfg_size a mod 2 ^ 64 \<noteq> 0)
       \<and> (- (2 ^ 63) \<le> cfg_size a \<and> cfg_size a < 2 ^ 63
          \<longrightarrow> (0 < (word_of_int (cfg_size a) :: 64 word)) = (cfg_size a \<noteq> 0))"
proof (intro conjI impI)
  assume h: "d_GetOk d ''path'' = (Some (VString p), True)
          \<and> (rd_IsNewResource d \<longrightarrow> (\<exists>ex. VhdExists c h p = (ex, None) \<and> \<not> Exists ex))
          \<and> call_err c (precheck_history d h p) (create_call api p a) = None"
  then have h1: "d_GetOk d ''path'' = (Some (VString p), True)"
    and h2: "rd_IsNewResource d \<longrightarrow> (\<exists>ex. VhdExists c h p = (ex, None) \<and> \<not> Exists ex)"
    and h3: "call_err c (precheck_history d h p) (create_call api p a) = None"
    by blast+
  from create_calls [OF h1 h2 assms h3] obtain ds d' rest where
    r: "resourceHyperVVhdCreate api c d h
            = Some (ds, d', h @ (if rd_IsNewResource d then [Call_VhdExists p] else [])
                     @ [create_call api p a]
                     @ (if 0 < (word_of_int (cfg_size a) :: 64 word) \<and> cfg_parent_path a = []
                        then [resize_call p a] else [])
                     @ rest)"
    and rest: "rest = [] \<or> rest = [Call_GetVhd p]"
    by blast
  show "filter is_CreateOrUpdateVhd (calls_of h (resourceHyperVVhdCreate api c d h)) = [create_call api p a]"
    unfolding r calls_of_append
    by (simp add: is_call_simps filter_create_rest [OF rest])
  show "filter is_ResizeVhd (calls_of h (resourceHyperVVhdCreate api c d h))
          = (if 0 < (word_of_int (cfg_size a) :: 64 word) \<and> cfg_parent_path a = []
             then [resize_call p a] else [])"
    unfolding r calls_of_append
    by (simp add: is_call_simps filter_resize_rest [OF rest])
next
  assume h: "update_recreates d a \<longrightarrow> call_err c h (create_call api (rd_Id d) a) = None"
  from update_calls [OF assms h] obtain ds d' rest where
    r: "resourceHyperVVhdUpdate api c d h
            = Some (ds, d', h @ (if update_recreates d a then [create_call api (rd_Id d) a] else [])
                     @ (if 0 < (word_of_int (cfg_size a) :: 64 word) \<and> cfg_parent_path a = []
                           \<and> (\<not> cfg_exists a \<or> d_HasChange d ''size'')
                        then [resize_call (rd_Id d) a] else [])
                     @ rest)"
    and rest: "rest = [] \<or> rest = [Call_GetVhd (rd_Id d)]"
    by blast
  show "filter is_ResizeVhd (calls_of h (resourceHyperVVhdUpdate api c d h))
          = (if 0 < (word_of_int (cfg_size a) :: 64 word) \<and> cfg_parent_path a = []
                \<and> (\<not> cfg_exists a \<or> d_HasChange d ''size'')
             then [resize_call (rd_Id d) a] else [])"
    unfolding r calls_of_append
    by (simp add: is_call_simps filter_resize_rest [OF rest])
next
  show "(0 < (word_of_int (cfg_size a) :: 64 word)) = (cfg_size a mod 2 ^ 64 \<noteq> 0)"
    by (rule word64_pos_iff)
next
  assume "- (2 ^ 63) \<le> cfg_size a \<and> cfg_size a < 2 ^ 63"
  then show "(0 < (word_of_int (cfg_size a) :: 64 word)) = (cfg_size a \<noteq> 0)"
    by (simp add: word64_pos_in_range)
qed

theorem C4_resize_condition_witness:
  "configured (example_data resourceHyperVVhd_Schema True
       [''path'' \<mapsto> VString ''c.vhdx'', ''parent_path'' \<mapsto> VString ''p.vhdx''])
     \<lparr>cfg_source = [], cfg_source_vm = [], cfg_source_disk = 0, cfg_vhd_type = [],
      cfg_parent_path = ''p.vhdx'', cfg_size = 0, cfg_block_size = 0, cfg_logical_sector_size = 0,
      cfg_physical_sector_size = 0, cfg_exists = False\<rparr>
   \<and> filter is_CreateOrUpdateVhd (calls_of [] (resourceHyperVVhdCreate example_api
        (example_Client None False (example_Vhd ''c.vhdx''))
        (example_data resourceHyperVVhd_Schema True
           [''path'' \<mapsto> VString ''c.vhdx'', ''parent_path'' \<mapsto> VString ''p.vhdx'']) []))
      = [Call_CreateOrUpdateVhd ''c.vhdx'' [] [] 0 0 ''p.vhdx'' 0 0 0 0]
   \<and> filter is_ResizeVhd (calls_of [] (resourceHyperVVhdCreate example_api
        (example_Client None False (example_Vhd ''c.vhdx''))
        (example_data resourceHyperVVhd_Schema True
           [''path'' \<mapsto> VString ''c.vhdx'', ''parent_path'' \<mapsto> VString ''p.vhdx'']) []))
      = []
   \<and> configured \<lparr>rd_schema = resourceHyperVVhd_Schema, rd_Id = ''d.vhdx'', rd_IsNewResource = False,
         rd_state = [''exists'' \<mapsto> VBool True, ''size'' \<mapsto> VInt 4096],
         rd_attrs = [''exists'' \<mapsto> VBool True, ''size'' \<mapsto> VInt 8192]\<rparr>
     \<lparr>cfg_source = [], cfg_source_vm = [], cfg_source_disk = 0, cfg_vhd_type = [],
      cfg_parent_path = [], cfg_size = 8192, cfg_block_size = 0, cfg_logical_sector_size = 0,
      cfg_physical_sector_size = 0, cfg_exists = True\<rparr>
   \<and> filter is_ResizeVhd (calls_of [] (resourceHyperVVhdUpdate example_api
        (example_Client None False (example_Vhd ''d.vhdx''))
        \<lparr>rd_schema = resourceHyperVVhd_Schema, rd_Id = ''d.vhdx'', rd_IsNewResource = False,
         rd_state = [''exists'' \<mapsto> VBool True, ''size'' \<mapsto> VInt 4096],
         rd_attrs = [''exists'' \<mapsto> VBool True, ''size'' \<mapsto> VInt 8192]\<rparr> []))
      = [Call_ResizeVhd ''d.vhdx'' 8192]
   \<and> configured (example_data resourceHyperVVhd_Schema True
       [''path'' \<mapsto> VString ''c.vhdx'', ''size'' \<mapsto> VInt (- 4096)])
     \<lparr>cfg_source = [], cfg_source_vm = [], cfg_source_disk = 0, cfg_vhd_type = [],
      cfg_parent_path = [], cfg_size = - 4096, cfg_block_size = 0, cfg_logical_sector_size = 0,
      cfg_physical_sector_size = 0, cfg_exists = False\<rparr>
   \<and> filter is_ResizeVhd (calls_of [] (resourceHyperVVhdCreate example_api
        (example_Client None False (example_Vhd ''c.vhdx''))
        (example_data resourceHyperVVhd_Schema True
           [''path'' \<mapsto> VString ''c.vhdx'', ''size'' \<mapsto> VInt (- 4096)]) []))
      = [Call_ResizeVhd ''c.vhdx'' (word_of_int (- 4096))]"
proof -
  let ?d2 = "example_data resourceHyperVVhd_Schema True
       [''path'' \<mapsto> VString ''c.vhdx'', ''size'' \<mapsto> VInt (- 4096)]"
  let ?a2 = "\<lparr>cfg_source = [], cfg_source_vm = [], cfg_source_disk = 0, cfg_vhd_type = [],
      cfg_parent_path = [], cfg_size = - 4096, cfg_block_size = 0, cfg_logical_sector_size = 0,
      cfg_physical_sector_size = 0, cfg_exists = False\<rparr>"
  let ?d0 = "example_data resourceHyperVVhd_Schema True
       [''path'' \<mapsto> VString ''c.vhdx'', ''parent_path'' \<mapsto> VString ''p.vhdx'']"
  let ?a0 = "\<lparr>cfg_source = [], cfg_source_vm = [], cfg_source_disk = 0, cfg_vhd_type = [],
      cfg_parent_path = ''p.vhdx'', cfg_size = 0, cfg_block_size = 0, cfg_logical_sector_size = 0,
      cfg_physical_sector_size = 0, cfg_exists = False\<rparr>"
  let ?c0 = "example_Client None False (example_Vhd ''c.vhdx'')"
  let ?d1 = "\<lparr>rd_schema = resourceHyperVVhd_Schema, rd_Id = ''d.vhdx'', rd_IsNewResource = False,
         rd_state = [''exists'' \<mapsto> VBool True, ''size'' \<mapsto> VInt 4096],
         rd_attrs = [''exists'' \<mapsto> VBool True, ''size'' \<mapsto> VInt 8192]\<rparr>"
  let ?a1 = "\<lparr>cfg_source = [], cfg_source_vm = [], cfg_source_disk = 0, cfg_vhd_type = [],
      cfg_parent_path = [], cfg_size = 8192, cfg_block_size = 0, cfg_logical_sector_size = 0,
      cfg_physical_sector_size = 0, cfg_exists = True\<rparr>"
  let ?c1 = "example_Client None False (example_Vhd ''d.vhdx'')"
  have k0: "configured ?d0 ?a0"
    by (simp add: configured_def example_data_def d_Get_def read_field_def vhd_schema_simps)
  have p0: "d_GetOk ?d0 ''path'' = (Some (VString ''c.vhdx''), True)"
    by (simp add: example_data_def d_GetOk_def d_Get_def read_field_def vhd_schema_simps)
  have e0: "rd_IsNewResource ?d0 \<longrightarrow> (\<exists>ex. VhdExists ?c0 [] ''c.vhdx'' = (ex, None) \<and> \<not> Exists ex)"
    by (simp add: example_Client_def failing_def)
  have f0: "call_err ?c0 (precheck_history ?d0 [] ''c.vhdx'') (create_call example_api ''c.vhdx'' ?a0) = None"
    by (simp add: create_call_def example_Client_def failing_def)
  have v0: "create_call example_api ''c.vhdx'' ?a0 = Call_CreateOrUpdateVhd ''c.vhdx'' [] [] 0 0 ''p.vhdx'' 0 0 0 0"
    by (simp add: create_call_def example_api_def)
  have k1: "configured ?d1 ?a1"
    by (simp add: configured_def d_Get_def read_field_def vhd_schema_simps)
  have u1: "\<not> update_recreates ?d1 ?a1"
    by (simp add: update_recreates_def d_HasChange_def d_Get_def read_field_def vhd_schema_simps)
  have s1: "d_HasChange ?d1 ''size''"
    by (simp add: d_HasChange_def d_Get_def read_field_def vhd_schema_simps)
  have v1: "resize_call ''d.vhdx'' ?a1 = Call_ResizeVhd ''d.vhdx'' 8192"
    by (simp add: resize_call_def)
  from C4_resize_condition [OF k0, of "''c.vhdx''" ?c0 "[]" example_api] p0 e0 f0
  have "filter is_CreateOrUpdateVhd (calls_of [] (resourceHyperVVhdCreate example_api ?c0 ?d0 []))
          = [create_call example_api ''c.vhdx'' ?a0]
      \<and> filter is_ResizeVhd (calls_of [] (resourceHyperVVhdCreate example_api ?c0 ?d0 []))
          = (if 0 < (word_of_int (cfg_size ?a0) :: 64 word) \<and> cfg_parent_path ?a0 = []
             then [resize_call ''c.vhdx'' ?a0] else [])"
    by blast
  then have a: "filter is_CreateOrUpdateVhd (calls_of [] (resourceHyperVVhdCreate example_api ?c0 ?d0 []))
          = [Call_CreateOrUpdateVhd ''c.vhdx'' [] [] 0 0 ''p.vhdx'' 0 0 0 0]
      \<and> filter is_ResizeVhd (calls_of [] (resourceHyperVVhdCreate example_api ?c0 ?d0 [])) = []"
    by (simp add: v0)
  from C4_resize_condition [OF k1, of _ ?c1 "[]" example_api] u1
  have "filter is_ResizeVhd (calls_of [] (resourceHyperVVhdUpdate example_api ?c1 ?d1 []))
          = (if 0 < (word_of_int (cfg_size ?a1) :: 64 word) \<and> cfg_parent_path ?a1 = []
                \<and> (\<not> cfg_exists ?a1 \<or> d_HasChange ?d1 ''size'')
             then [resize_call (rd_Id ?d1) ?a1] else [])"
    by blast
  then have b: "filter is_ResizeVhd (calls_of [] (resourceHyperVVhdUpdate example_api ?c1 ?d1 []))
          = [Call_ResizeVhd ''d.vhdx'' 8192]"
    using s1 by (simp add: v1)
  have k2: "configured ?d2 ?a2"
    by (simp add: configured_def example_data_def d_Get_def read_field_def vhd_schema_simps)
  have p2: "d_GetOk ?d2 ''path'' = (Some (VString ''c.vhdx''), True)"
    by (simp add: example_data_def d_GetOk_def d_Get_def read_field_def vhd_schema_simps)
  have e2: "rd_IsNewResource ?d2 \<longrightarrow> (\<exists>ex. VhdExists ?c0 [] ''c.vhdx'' = (ex, None) \<and> \<not> Exists ex)"
    by (simp add: example_Client_def failing_def)
  have f2: "call_err ?c0 (precheck_history ?d2 [] ''c.vhdx'') (create_call example_api ''c.vhdx'' ?a2) = None"
    by (simp add: create_call_def example_Client_def failing_def)
  have r2: "- (2 ^ 63) \<le> cfg_size ?a2 \<and> cfg_size ?a2 < 2 ^ 63" by simp
  have v2: "resize_call ''c.vhdx'' ?a2 = Call_ResizeVhd ''c.vhdx'' (word_of_int (- 4096))"
    by (simp add: resize_call_def)
  from C4_resize_condition [OF k2, of "''c.vhdx''" ?c0 "[]" example_api] p2 e2 f2 r2
  have "filter is_ResizeVhd (calls_of [] (resourceHyperVVhdCreate example_api ?c0 ?d2 []))
          = (if 0 < (word_of_int (cfg_size ?a2) :: 64 word) \<and> cfg_parent_path ?a2 = []
             then [resize_call ''c.vhdx'' ?a2] else [])
      \<and> (0 < (word_of_int (cfg_size ?a2) :: 64 word)) = (cfg_size ?a2 \<noteq> 0)"
    by blast
  then have "filter is_ResizeVhd (calls_of [] (resourceHyperVVhdCreate example_api ?c0 ?d2 []))
          = [resize_call ''c.vhdx'' ?a2]"
    by simp
  then have c: "filter is_ResizeVhd (calls_of [] (resourceHyperVVhdCreate example_api ?c0 ?d2 []))
          = [Call_ResizeVhd ''c.vhdx'' (word_of_int (- 4096))]"
    by (simp only: v2)
  show ?thesis by (intro conjI) (rule k0 k1 k2 a [THEN conjunct1] a [THEN conjunct2] b c)+
qed

subsection \<open>Creating a disk that exists\<close>

text \<open>
  Claim C9. For a new VHD resource whose path is set, the first call of the create handler
  is \<open>VhdExists\<close> on that path; if it answers without error that the disk exists, the
  handler returns the error that the resource already exists, the resource data are
  unchanged and \<open>VhdExists\<close> is its only call: neither \<open>CreateOrUpdateVhd\<close> nor
  \<open>ResizeVhd\<close> is called.
\<close>

theorem C9_create_existing:
  assumes "rd_schema d = resourceHyperVVhd_Schema"
    and "d_GetOk d ''path'' = (Some (VString p), True)"
    and "rd_IsNewResource d"
  shows "(\<exists>ds d' rest. resourceHyperVVhdCreate api c d h = Some (ds, d', h @ Call_VhdExists p # rest))
       \<and> (\<forall>ex. VhdExists c h p = (ex, None) \<and> Exists ex \<longrightarrow>
            resourceHyperVVhdCreate api c d h
              = Some (diag_FromErr (already_exists p), d, h @ [Call_VhdExists p])
          \<and> HasError (diags_of (resourceHyperVVhdCreate api c d h))
          \<and> calls_of h (resourceHyperVVhdCreate api c d h) = [Call_VhdExists p])"
proof -
  obtain ex e where v: "VhdExists c h p = (ex, e)" by (cases "VhdExists c h p") auto
  from configured_exists [OF assms(1)] obtain a where a: "configured d a" ..
  have first: "\<exists>ds d' rest. resourceHyperVVhdCreate api c d h = Some (ds, d', h @ Call_VhdExists p # rest)"
  proof (cases e)
    case (Some err)
    with v create_exists_error [OF assms(2,3), of c h ex err api] show ?thesis by simp
  next
    case None
    show ?thesis
    proof (cases "Exists ex")
      case True
      with v None create_already_exists [OF assms(2,3), of c h ex api] show ?thesis by simp
    next
      case False
      with v None have pre: "rd_IsNewResource d \<longrightarrow> (\<exists>ex. VhdExists c h p = (ex, None) \<and> \<not> Exists ex)"
        by blast
      note r = create_after_precheck [OF assms(2) pre a, of api]
      have id: "rd_Id (d_SetId d p) = p" by (simp add: d_SetId_def)
      have hp: "precheck_history d h p = h @ [Call_VhdExists p]"
        using assms(3) by (simp add: precheck_history_def)
      from vhd_read_history [of api c "d_SetId d p"] id
      have rd: "\<And>h0. \<exists>ds d'. resourceHyperVVhdRead api c (d_SetId d p) h0 = Some (ds, d', h0 @ [Call_GetVhd p])"
        by simp
      from rd [of "h @ [Call_VhdExists p, create_call api p a, resize_call p a]"]
        rd [of "h @ [Call_VhdExists p, create_call api p a]"]
      show ?thesis
        unfolding r hp
        by (cases "call_err c (h @ [Call_VhdExists p]) (create_call api p a)";
            cases "call_err c (h @ [Call_VhdExists p, create_call api p a]) (resize_call p a)")
           auto
    qed
  qed
  have second: "resourceHyperVVhdCreate api c d h
              = Some (diag_FromErr (already_exists p), d, h @ [Call_VhdExists p])
          \<and> HasError (diags_of (resourceHyperVVhdCreate api c d h))
          \<and> calls_of h (resourceHyperVVhdCreate api c d h) = [Call_VhdExists p]"
    if "VhdExists c h p = (ex', None) \<and> Exists ex'" for ex'
  proof -
    from that have "VhdExists c h p = (ex', None)" "Exists ex'" by blast+
    from create_already_exists [OF assms(2,3) this, of api] show ?thesis
      by (simp add: diags_of_def calls_of_def diag_FromErr_HasError)
  qed
  from first second show ?thesis by blast
qed

theorem C9_create_existing_witness:
  "rd_schema (example_data resourceHyperVVhd_Schema True [''path'' \<mapsto> VString ''c.vhdx'', ''size'' \<mapsto> VInt 4096])
      = resourceHyperVVhd_Schema
   \<and> rd_IsNewResource (example_data resourceHyperVVhd_Schema True [''path'' \<mapsto> VString ''c.vhdx'', ''size'' \<mapsto> VInt 4096])
   \<and> VhdExists (example_Client None True (example_Vhd ''c.vhdx'')) [] ''c.vhdx'' = (\<lparr>Exists = True\<rparr>, None)
   \<and> resourceHyperVVhdCreate example_api (example_Client None True (example_Vhd ''c.vhdx''))
        (example_data resourceHyperVVhd_Schema True [''path'' \<mapsto> VString ''c.vhdx'', ''size'' \<mapsto> VInt 4096]) []
      = Some (diag_FromErr (already_exists ''c.vhdx''),
              example_data resourceHyperVVhd_Schema True [''path'' \<mapsto> VString ''c.vhdx'', ''size'' \<mapsto> VInt 4096],
              [Call_VhdExists ''c.vhdx''])
   \<and> calls_of [] (resourceHyperVVhdCreate example_api (example_Client None True (example_Vhd ''c.vhdx''))
        (example_data resourceHyperVVhd_Schema True [''path'' \<mapsto> VString ''c.vhdx'', ''size'' \<mapsto> VInt 4096]) [])
      = [Call_VhdExists ''c.vhdx'']"
proof -
  let ?d = "example_data resourceHyperVVhd_Schema True [''path'' \<mapsto> VString ''c.vhdx'', ''size'' \<mapsto> VInt 4096]"
  let ?c = "example_Client None True (example_Vhd ''c.vhdx'')"
  have s: "rd_schema ?d = resourceHyperVVhd_Schema" and n: "rd_IsNewResource ?d"
    by (simp_all add: example_data_def)
  have p: "d_GetOk ?d ''path'' = (Some (VString ''c.vhdx''), True)"
    by (simp add: example_data_def d_GetOk_def d_Get_def read_field_def vhd_schema_simps)
  have v: "VhdExists ?c [] ''c.vhdx'' = (\<lparr>Exists = True\<rparr>, None)"
    by (simp add: example_Client_def failing_def)
  have x: "Exists \<lparr>Exists = True\<rparr>" by simp
  from C9_create_existing [OF s p n, of example_api ?c "[]"] v x
  have "resourceHyperVVhdCreate example_api ?c ?d []
          = Some (diag_FromErr (already_exists ''c.vhdx''), ?d, [] @ [Call_VhdExists ''c.vhdx''])
      \<and> calls_of [] (resourceHyperVVhdCreate example_api ?c ?d []) = [Call_VhdExists ''c.vhdx'']"
    by blast
  note t = this [unfolded append_Nil]
  from t s n v show ?thesis by blast
qed

subsection \<open>Errors of the client\<close>

lemma propagates_intro:
  "r = Some (ds, d', h @ xs) \<Longrightarrow> propagated conv c h xs ds \<Longrightarrow> propagates conv c h r"
  by (simp add: propagates_def)

lemma vhd_read_propagates:
  assumes "\<And>p e. conv (Call_GetVhd p) e = e"
  shows "\<exists>ds d'. resourceHyperVVhdRead api c d h = Some (ds, d', h @ [Call_GetVhd (rd_Id d)])
           \<and> propagated conv c h [Call_GetVhd (rd_Id d)] ds"
proof -
  obtain vhd e where l: "GetVhd c h (rd_Id d) = (vhd, e)" by (cases "GetVhd c h (rd_Id d)") auto
  show ?thesis
  proof (cases e)
    case None
    with l vhd_read_history [of api c d h] show ?thesis by auto
  next
    case (Some err)
    with l vhd_read_error [of c h d vhd err api] assms show ?thesis by simp
  qed
qed

lemma conv_GetVhd: "unaltered (Call_GetVhd p) e = e" "as_reported (Call_GetVhd p) e = e"
  by (simp_all add: unaltered_def)

lemma vhd_create_propagates:
  assumes "rd_schema d = resourceHyperVVhd_Schema"
  shows "propagates as_reported c h (resourceHyperVVhdCreate api c d h)"
proof -
  from assms have "rd_schema d ''path'' = Some TypeString" by (simp add: vhd_schema_simps)
  from GetOk_string_declared [OF this] obtain p where g: "d_GetOk d ''path'' = (Some (VString p), p \<noteq> [])"
    by blast
  from configured_exists [OF assms] obtain a where a: "configured d a" ..
  show ?thesis
  proof (cases "p = []")
    case True
    with g have "resourceHyperVVhdCreate api c d h
        = Some (diag_Errorf ''[ERROR][hyperv][create] path argument is required'', d, h @ [])"
      by (simp add: resourceHyperVVhdCreate_def)
    then show ?thesis by (rule propagates_intro) simp
  next
    case False
    with g have g': "d_GetOk d ''path'' = (Some (VString p), True)" by simp
    obtain ex e where v: "VhdExists c h p = (ex, e)" by (cases "VhdExists c h p") auto
    consider (err) err where "rd_IsNewResource d" "e = Some err"
      | (found) "rd_IsNewResource d" "e = None" "Exists ex"
      | (pass) "rd_IsNewResource d \<longrightarrow> e = None \<and> \<not> Exists ex"
      by (cases e) auto
    then show ?thesis
    proof cases
      case err
      with v create_exists_error [OF g', of c h ex err api] show ?thesis
        by (auto intro!: propagates_intro)
    next
      case found
      with v create_already_exists [OF g', of c h ex api] show ?thesis
        by (auto intro!: propagates_intro)
    next
      case pass
      with v have pre: "rd_IsNewResource d \<longrightarrow> (\<exists>ex. VhdExists c h p = (ex, None) \<and> \<not> Exists ex)"
        by auto
      let ?pre = "if rd_IsNewResource d then [Call_VhdExists p] else []"
      let ?h1 = "precheck_history d h p"
      have h1: "?h1 = h @ ?pre" by (simp add: precheck_history_def)
      have skip: "propagated as_reported c h (?pre @ xs) ds = propagated as_reported c ?h1 xs ds" for xs ds
        using pass v by (simp add: precheck_history_def)
      note r = create_after_precheck [OF g' pre a, of api]
      have id: "rd_Id (d_SetId d p) = p" by (simp add: d_SetId_def)
      from vhd_read_propagates [of as_reported api c "d_SetId d p"] id
      have rd: "\<And>h0. \<exists>ds d'. resourceHyperVVhdRead api c (d_SetId d p) h0 = Some (ds, d', h0 @ [Call_GetVhd p])
                   \<and> propagated as_reported c h0 [Call_GetVhd p] ds"
        by (simp add: conv_GetVhd)
      have "\<exists>ds d' xs. resourceHyperVVhdCreate api c d h = Some (ds, d', ?h1 @ xs)
                \<and> propagated as_reported c ?h1 xs ds"
      proof (cases "call_err c ?h1 (create_call api p a)")
        case (Some err1)
        then have "resourceHyperVVhdCreate api c d h = Some (diag_FromErr err1, d, ?h1 @ [create_call api p a])
            \<and> propagated as_reported c ?h1 [create_call api p a] (diag_FromErr err1)"
          unfolding r by (simp add: create_call_def)
        then show ?thesis by blast
      next
        case None
        show ?thesis
        proof (cases "0 < (word_of_int (cfg_size a) :: 64 word) \<and> cfg_parent_path a = []")
          case True
          show ?thesis
          proof (cases "call_err c (?h1 @ [create_call api p a]) (resize_call p a)")
            case (Some err2)
            with None True have "resourceHyperVVhdCreate api c d h
                  = Some (diag_FromErr err2, d, ?h1 @ [create_call api p a, resize_call p a])
                \<and> propagated as_reported c ?h1 [create_call api p a, resize_call p a] (diag_FromErr err2)"
              unfolding r by (simp add: resize_call_def)
            then show ?thesis by blast
          next
            case N2: None
            from rd [of "?h1 @ [create_call api p a, resize_call p a]"] obtain ds d' where
              "resourceHyperVVhdRead api c (d_SetId d p) (?h1 @ [create_call api p a, resize_call p a])
                 = Some (ds, d', (?h1 @ [create_call api p a, resize_call p a]) @ [Call_GetVhd p])"
              "propagated as_reported c (?h1 @ [create_call api p a, resize_call p a]) [Call_GetVhd p] ds"
              by blast
            with None True N2 have "resourceHyperVVhdCreate api c d h
                  = Some (ds, d', ?h1 @ [create_call api p a, resize_call p a, Call_GetVhd p])
                \<and> propagated as_reported c ?h1 [create_call api p a, resize_call p a, Call_GetVhd p] ds"
              unfolding r by simp
            then show ?thesis by blast
          qed
        next
          case False
          from rd [of "?h1 @ [create_call api p a]"] obtain ds d' where
            "resourceHyperVVhdRead api c (d_SetId d p) (?h1 @ [create_call api p a])
               = Some (ds, d', (?h1 @ [create_call api p a]) @ [Call_GetVhd p])"
            "propagated as_reported c (?h1 @ [create_call api p a]) [Call_GetVhd p] ds"
            by blast
          with None False have "resourceHyperVVhdCreate api c d h
                = Some (ds, d', ?h1 @ [create_call api p a, Call_GetVhd p])
              \<and> propagated as_reported c ?h1 [create_call api p a, Call_GetVhd p] ds"
            unfolding r by auto
          then show ?thesis by blast
        qed
      qed
      then obtain ds d' xs where o: "resourceHyperVVhdCreate api c d h = Some (ds, d', ?h1 @ xs)"
        and pr: "propagated as_reported c ?h1 xs ds" by blast
      from o have "resourceHyperVVhdCreate api c d h = Some (ds, d', h @ (?pre @ xs))"
        by (simp add: h1)
      moreover from pr have "propagated as_reported c h (?pre @ xs) ds" by (simp only: skip)
      ultimately show ?thesis by (rule propagates_intro)
    qed
  qed
qed

lemma vhd_update_propagates:
  assumes "rd_schema d = resourceHyperVVhd_Schema"
  shows "propagates unaltered c h (resourceHyperVVhdUpdate api c d h)"
proof -
  from configured_exists [OF assms] obtain a where a: "configured d a" ..
  let ?cr = "create_call api (rd_Id d) a"
  let ?rs = "resize_call (rd_Id d) a"
  let ?pre = "if update_recreates d a then [?cr] else []"
  let ?h1 = "if update_recreates d a then h @ [?cr] else h"
  have h1: "?h1 = h @ ?pre" by simp
  note r = update_phases [OF a, of api c h]
  from vhd_read_propagates [of unaltered api c d]
  have rd: "\<And>h0. \<exists>ds d'. resourceHyperVVhdRead api c d h0 = Some (ds, d', h0 @ [Call_GetVhd (rd_Id d)])
               \<and> propagated unaltered c h0 [Call_GetVhd (rd_Id d)] ds"
    by (simp add: conv_GetVhd)
  show ?thesis
  proof (cases "update_recreates d a \<and> call_err c h ?cr \<noteq> None")
    case True
    then obtain err where e: "call_err c h ?cr = Some err" by auto
    with True have "resourceHyperVVhdUpdate api c d h = Some (diag_FromErr err, d, h @ [?cr])"
      unfolding r by simp
    moreover from e have "propagated unaltered c h [?cr] (diag_FromErr err)"
      by (simp add: unaltered_def)
    ultimately show ?thesis by (rule propagates_intro)
  next
    case False
    then have ok: "(if update_recreates d a then call_err c h ?cr else None) = None" by auto
    from False have skip: "propagated unaltered c h (?pre @ xs) ds = propagated unaltered c ?h1 xs ds" for xs ds
      by auto
    have "\<exists>ds d' xs. resourceHyperVVhdUpdate api c d h = Some (ds, d', ?h1 @ xs)
              \<and> propagated unaltered c ?h1 xs ds"
    proof (cases "0 < (word_of_int (cfg_size a) :: 64 word) \<and> cfg_parent_path a = []
                   \<and> (\<not> cfg_exists a \<or> d_HasChange d ''size'')")
      case True
      show ?thesis
      proof (cases "call_err c ?h1 ?rs")
        case (Some err2)
        with True ok have "resourceHyperVVhdUpdate api c d h = Some (diag_FromErr err2, d, ?h1 @ [?rs])
            \<and> propagated unaltered c ?h1 [?rs] (diag_FromErr err2)"
          unfolding r Let_def by (simp add: unaltered_def)
        then show ?thesis by blast
      next
        case None
        from rd [of "?h1 @ [?rs]"] obtain ds d' where
          "resourceHyperVVhdRead api c d (?h1 @ [?rs]) = Some (ds, d', (?h1 @ [?rs]) @ [Call_GetVhd (rd_Id d)])"
          "propagated unaltered c (?h1 @ [?rs]) [Call_GetVhd (rd_Id d)] ds"
          by blast
        with True ok None have "resourceHyperVVhdUpdate api c d h
              = Some (ds, d', ?h1 @ [?rs, Call_GetVhd (rd_Id d)])
            \<and> propagated unaltered c ?h1 [?rs, Call_GetVhd (rd_Id d)] ds"
          unfolding r Let_def by simp
        then show ?thesis by blast
      qed
    next
      case False
      from rd [of ?h1] obtain ds d' where
        "resourceHyperVVhdRead api c d ?h1 = Some (ds, d', ?h1 @ [Call_GetVhd (rd_Id d)])"
        "propagated unaltered c ?h1 [Call_GetVhd (rd_Id d)] ds"
        by blast
      with False ok have "resourceHyperVVhdUpdate api c d h = Some (ds, d', ?h1 @ [Call_GetVhd (rd_Id d)])
            \<and> propagated unaltered c ?h1 [Call_GetVhd (rd_Id d)] ds"
        unfolding r Let_def by auto
      then show ?thesis by blast
    qed
    then obtain ds d' xs where o: "resourceHyperVVhdUpdate api c d h = Some (ds, d', ?h1 @ xs)"
      and pr: "propagated unaltered c ?h1 xs ds" by blast
    from o have "resourceHyperVVhdUpdate api c d h = Some (ds, d', h @ (?pre @ xs))"
      by (simp only: h1 append_assoc)
    moreover from pr have "propagated unaltered c h (?pre @ xs) ds" by (simp only: skip)
    ultimately show ?thesis by (rule propagates_intro)
  qed
qed

lemma vhd_read_propagates_unaltered: "propagates unaltered c h (resourceHyperVVhdRead api c d h)"
proof -
  from vhd_read_propagates [of unaltered api c d h] obtain ds d' where
    "resourceHyperVVhdRead api c d h = Some (ds, d', h @ [Call_GetVhd (rd_Id d)])"
    "propagated unaltered c h [Call_GetVhd (rd_Id d)] ds"
    by (auto simp: conv_GetVhd)
  then show ?thesis by (rule propagates_intro)
qed

lemma vhd_delete_propagates: "propagates unaltered c h (resourceHyperVVhdDelete c d h)"
  by (cases "DeleteVhd c h (rd_Id d)")
     (simp_all add: resourceHyperVVhdDelete_def propagates_def Let_def unaltered_def)

lemma dvd_delete_propagates: "propagates unaltered c h (resourceHyperVDvdDelete c d h)"
  by (cases "DeleteDvd c h (rd_Id d)")
     (simp_all add: resourceHyperVDvdDelete_def propagates_def Let_def unaltered_def)

lemma dvd_create_propagates:
  assumes "rd_schema d = resourceHyperVDvd_Schema"
  shows "propagates unaltered c h (resourceHyperVDvdCreate c d h)"
proof -
  from assms have "rd_schema d ''path'' = Some TypeString" "rd_schema d ''ip'' = Some TypeString"
    by (simp_all add: dvd_schema_simps)
  from this [THEN Get_string_declared] obtain p ip where
    g: "d_Get d ''path'' = Some (VString p)" "d_Get d ''ip'' = Some (VString ip)" by blast
  show ?thesis
    by (cases "CreateDvd c h p ip")
       (simp_all add: resourceHyperVDvdCreate_def g propagates_def unaltered_def)
qed

lemma dvd_read_propagates:
  assumes "rd_schema d = resourceHyperVDvd_Schema"
  shows "propagates unaltered c h (resourceHyperVDvdRead c d h)"
proof -
  from assms have "rd_schema d ''ip'' = Some TypeString" by (simp add: dvd_schema_simps)
  from Get_string_declared [OF this] obtain ip where g: "d_Get d ''ip'' = Some (VString ip)" by blast
  obtain res e where l: "GetDvd c h (rd_Id d) ip = (res, e)" by (cases "GetDvd c h (rd_Id d) ip") auto
  show ?thesis
  proof (cases e)
    case None
    with l dvd_read_total [OF assms g, of c h res] show ?thesis
      by (simp add: propagates_def)
  next
    case (Some err)
    with l g show ?thesis
      by (simp add: resourceHyperVDvdRead_def propagates_def unaltered_def Let_def)
  qed
qed

lemma datasource_read_propagates:
  assumes "rd_schema d = dataSourceHyperVDvd_Schema"
  shows "propagates unaltered c h (datasourceHyperVDvdRead c d h)"
proof -
  from assms have sp: "rd_schema d ''path'' = Some TypeString" and se: "rd_schema d ''exists'' = None"
    by (simp_all add: dataSource_schema_simps)
  from GetOk_string_declared [OF sp] obtain p where g: "d_GetOk d ''path'' = (Some (VString p), p \<noteq> [])"
    by blast
  obtain vhd e where l: "GetVhd c h p = (vhd, e)" by (cases "GetVhd c h p") auto
  show ?thesis
    using g l sp se
    by (cases "p = []"; cases e; cases "Vhd_Path vhd = []")
       (simp_all add: datasourceHyperVDvdRead_def propagates_def unaltered_def d_Set_def)
qed

text \<open>
  Claim C6 as stated fails for the pre-check of the create handler: when \<open>VhdExists\<close>
  answers an error, the diagnostic is not the one of that error but the one of a new
  error, of another kind, whose text starts with \<open>checking for existing\<close>.
\<close>

theorem C6_counterexample:
  "call_err (example_Client (Some 0) False zero_Vhd) [] (Call_VhdExists ''c.vhdx'') = Some connection_reset
   \<and> resourceHyperVVhdCreate example_api (example_Client (Some 0) False zero_Vhd)
        (example_data resourceHyperVVhd_Schema True [''path'' \<mapsto> VString ''c.vhdx'']) []
      = Some (diag_FromErr (checking_for_existing ''c.vhdx'' connection_reset),
              example_data resourceHyperVVhd_Schema True [''path'' \<mapsto> VString ''c.vhdx''],
              [Call_VhdExists ''c.vhdx''])
   \<and> diag_FromErr (checking_for_existing ''c.vhdx'' connection_reset) \<noteq> diag_FromErr connection_reset
   \<and> kind (checking_for_existing ''c.vhdx'' connection_reset) \<noteq> kind connection_reset
   \<and> \<not> propagates unaltered (example_Client (Some 0) False zero_Vhd) []
        (resourceHyperVVhdCreate example_api (example_Client (Some 0) False zero_Vhd)
           (example_data resourceHyperVVhd_Schema True [''path'' \<mapsto> VString ''c.vhdx'']) [])"
proof -
  let ?c = "example_Client (Some 0) False zero_Vhd"
  let ?d = "example_data resourceHyperVVhd_Schema True [''path'' \<mapsto> VString ''c.vhdx'']"
  have e: "call_err ?c [] (Call_VhdExists ''c.vhdx'') = Some connection_reset"
    by (simp add: example_Client_def failing_def)
  have v: "VhdExists ?c [] ''c.vhdx'' = (\<lparr>Exists = False\<rparr>, Some connection_reset)"
    by (simp add: example_Client_def failing_def)
  have p: "d_GetOk ?d ''path'' = (Some (VString ''c.vhdx''), True)"
    by (simp add: example_data_def d_GetOk_def d_Get_def read_field_def vhd_schema_simps)
  have n: "rd_IsNewResource ?d" by (simp add: example_data_def)
  note r = create_exists_error [OF p n v, of example_api]
  have m: "diag_FromErr (checking_for_existing ''c.vhdx'' connection_reset) \<noteq> diag_FromErr connection_reset"
    by (simp add: diag_FromErr_def checking_for_existing_def connection_reset_def fmt_Errorf_def)
  have k: "kind (checking_for_existing ''c.vhdx'' connection_reset) \<noteq> kind connection_reset"
    by (simp add: checking_for_existing_def connection_reset_def fmt_Errorf_def)
  have q: "\<not> propagates unaltered ?c [] (resourceHyperVVhdCreate example_api ?c ?d [])"
    unfolding r using e m by (simp add: propagates_def unaltered_def)
  note r' = r [unfolded append_Nil]
  show ?thesis by (intro conjI) (rule e r' m k q)+
qed

text \<open>
  Claim C6, amended. In every handler, a client call that answers an error is the last
  call of the handler (it is not made again and no call follows it), and the handler
  returns the diagnostic of that very error; the one exception is the \<open>VhdExists\<close>
  pre-check of the VHD create handler, whose error is first wrapped into a new error
  with the text \<open>checking for existing <path>: <error>\<close> (still without a retry and
  without a further call).
\<close>

theorem C6_errors_propagate:
  "propagates unaltered c h (resourceHyperVVhdRead api c d h)
   \<and> propagates unaltered c h (resourceHyperVVhdDelete c d h)
   \<and> propagates unaltered c h (resourceHyperVDvdDelete c d h)
   \<and> (rd_schema d = resourceHyperVVhd_Schema \<longrightarrow>
        propagates as_reported c h (resourceHyperVVhdCreate api c d h)
      \<and> propagates unaltered c h (resourceHyperVVhdUpdate api c d h))
   \<and> (rd_schema d = resourceHyperVDvd_Schema \<longrightarrow>
        propagates unaltered c h (resourceHyperVDvdCreate c d h)
      \<and> propagates unaltered c h (resourceHyperVDvdRead c d h))
   \<and> (rd_schema d = dataSourceHyperVDvd_Schema \<longrightarrow>
        propagates unaltered c h (datasourceHyperVDvdRead c d h))"
  by (intro conjI impI)
     (simp_all add: vhd_read_propagates_unaltered vhd_delete_propagates dvd_delete_propagates
        vhd_create_propagates vhd_update_propagates dvd_create_propagates dvd_read_propagates
        datasource_read_propagates)

theorem C6_errors_propagate_witness:
  "rd_schema (example_data resourceHyperVVhd_Schema True [''path'' \<mapsto> VString ''c.vhdx'', ''size'' \<mapsto> VInt 4096])
      = resourceHyperVVhd_Schema
   \<and> call_err (example_Client (Some 1) False zero_Vhd) [Call_VhdExists ''c.vhdx'']
        (Call_CreateOrUpdateVhd ''c.vhdx'' [] [] 0 0 [] 4096 0 0 0) = Some connection_reset
   \<and> resourceHyperVVhdCreate example_api (example_Client (Some 1) False zero_Vhd)
        (example_data resourceHyperVVhd_Schema True [''path'' \<mapsto> VString ''c.vhdx'', ''size'' \<mapsto> VInt 4096]) []
      = Some (diag_FromErr connection_reset,
              example_data resourceHyperVVhd_Schema True [''path'' \<mapsto> VString ''c.vhdx'', ''size'' \<mapsto> VInt 4096],
              [Call_VhdExists ''c.vhdx'', Call_CreateOrUpdateVhd ''c.vhdx'' [] [] 0 0 [] 4096 0 0 0])
   \<and> propagates as_reported (example_Client (Some 1) False zero_Vhd) []
        (resourceHyperVVhdCreate example_api (example_Client (Some 1) False zero_Vhd)
           (example_data resourceHyperVVhd_Schema True [''path'' \<mapsto> VString ''c.vhdx'', ''size'' \<mapsto> VInt 4096]) [])
   \<and> rd_schema (example_data resourceHyperVDvd_Schema False [''ip'' \<mapsto> VString ''10.0.0.1'']) = resourceHyperVDvd_Schema
   \<and> propagates unaltered (example_Client (Some 0) False zero_Vhd) []
        (resourceHyperVDvdRead (example_Client (Some 0) False zero_Vhd)
           (example_data resourceHyperVDvd_Schema False [''ip'' \<mapsto> VString ''10.0.0.1'']) [])
   \<and> rd_schema (example_data dataSourceHyperVDvd_Schema False [''path'' \<mapsto> VString ''c.iso'']) = dataSourceHyperVDvd_Schema
   \<and> propagates unaltered (example_Client (Some 0) False zero_Vhd) []
        (datasourceHyperVDvdRead (example_Client (Some 0) False zero_Vhd)
           (example_data dataSourceHyperVDvd_Schema False [''path'' \<mapsto> VString ''c.iso'']) [])"
proof -
  let ?c1 = "example_Client (Some 1) False zero_Vhd"
  let ?c0 = "example_Client (Some 0) False zero_Vhd"
  let ?d1 = "example_data resourceHyperVVhd_Schema True [''path'' \<mapsto> VString ''c.vhdx'', ''size'' \<mapsto> VInt 4096]"
  let ?d2 = "example_data resourceHyperVDvd_Schema False [''ip'' \<mapsto> VString ''10.0.0.1'']"
  let ?d3 = "example_data dataSourceHyperVDvd_Schema False [''path'' \<mapsto> VString ''c.iso'']"
  let ?a = "\<lparr>cfg_source = [], cfg_source_vm = [], cfg_source_disk = 0, cfg_vhd_type = [],
      cfg_parent_path = [], cfg_size = 4096, cfg_block_size = 0, cfg_logical_sector_size = 0,
      cfg_physical_sector_size = 0, cfg_exists = False\<rparr>"
  have s1: "rd_schema ?d1 = resourceHyperVVhd_Schema" and s2: "rd_schema ?d2 = resourceHyperVDvd_Schema"
    and s3: "rd_schema ?d3 = dataSourceHyperVDvd_Schema"
    by (simp_all add: example_data_def)
  have e: "call_err ?c1 [Call_VhdExists ''c.vhdx''] (Call_CreateOrUpdateVhd ''c.vhdx'' [] [] 0 0 [] 4096 0 0 0)
      = Some connection_reset"
    by (simp add: example_Client_def failing_def)
  have p: "d_GetOk ?d1 ''path'' = (Some (VString ''c.vhdx''), True)"
    by (simp add: example_data_def d_GetOk_def d_Get_def read_field_def vhd_schema_simps)
  have k: "configured ?d1 ?a"
    by (simp add: configured_def example_data_def d_Get_def read_field_def vhd_schema_simps)
  have x: "rd_IsNewResource ?d1 \<longrightarrow> (\<exists>ex. VhdExists ?c1 [] ''c.vhdx'' = (ex, None) \<and> \<not> Exists ex)"
    by (simp add: example_Client_def failing_def)
  have cc: "create_call example_api ''c.vhdx'' ?a = Call_CreateOrUpdateVhd ''c.vhdx'' [] [] 0 0 [] 4096 0 0 0"
    by (simp add: create_call_def example_api_def)
  have ph: "precheck_history ?d1 [] ''c.vhdx'' = [Call_VhdExists ''c.vhdx'']"
    by (simp add: precheck_history_def example_data_def)
  have r: "resourceHyperVVhdCreate example_api ?c1 ?d1 []
      = Some (diag_FromErr connection_reset, ?d1,
              [Call_VhdExists ''c.vhdx'', Call_CreateOrUpdateVhd ''c.vhdx'' [] [] 0 0 [] 4096 0 0 0])"
    unfolding create_after_precheck [OF p x k, of example_api] ph cc using e by simp
  from C6_errors_propagate [of ?c1 "[]" example_api ?d1] s1
  have a: "propagates as_reported ?c1 [] (resourceHyperVVhdCreate example_api ?c1 ?d1 [])" by blast
  from C6_errors_propagate [of ?c0 "[]" example_api ?d2] s2
  have b: "propagates unaltered ?c0 [] (resourceHyperVDvdRead ?c0 ?d2 [])" by blast
  from C6_errors_propagate [of ?c0 "[]" example_api ?d3] s3
  have c: "propagates unaltered ?c0 [] (datasourceHyperVDvdRead ?c0 ?d3 [])" by blast
  show ?thesis by (intro conjI) (rule s1 s2 s3 e r a b c)+
qed

subsection \<open>Looking up a DVD that is not there\<close>

lemma decode_empty_object: "decode payload ''{}'' = Inr zero_Dvd"
  by (simp add: decode_def)

lemma decode_blank: "list_all is_space out \<Longrightarrow> decode payload out = Inr zero_Dvd"
  by (simp add: decode_def)

lemma getDvd_script_absent:
  "\<not> Test_Path rh path \<Longrightarrow>
   getDvdTemplate_script path ip rh = \<lparr>exitCode = 0, stdout = ''{}'', stderr = []\<rparr>"
  by (simp add: getDvdTemplate_script_def)

text \<open>
  Claim C5. When the transport does not fail and the path does not test true on the
  remote host, the lookup script emits exactly \<open>{}\<close> with exit code 0; the decoder
  turns \<open>{}\<close>, and likewise an empty output, into the zero value without error; and
  \<open>GetDvd\<close>, run on the engine of the specification, returns the zero-value \<open>Dvd\<close>
  (empty \<open>Path\<close> and \<open>Ip\<close>) and no error, through one run of the result-bearing runner.
\<close>

theorem C5_get_absent_dvd:
  assumes "transport_error s rs = None" and "\<not> Test_Path (host s rs) path"
  shows "getDvdTemplate_script path ip (host s rs) = \<lparr>exitCode = 0, stdout = ''{}'', stderr = []\<rparr>
       \<and> decode payload ''{}'' = Inr zero_Dvd
       \<and> decode payload [] = Inr zero_Dvd
       \<and> ClientConfig_GetDvd \<lparr>WinRmClient = spec_WinRmClient s payload\<rparr> rs path ip
            = ((zero_Dvd, None), rs @ [Run_ScriptWithResult getDvdTemplate (getDvdArgs path ip)])
       \<and> Dvd_Path zero_Dvd = [] \<and> Dvd_Ip zero_Dvd = []"
proof -
  have a: "getDvdTemplate_script path ip (host s rs) = \<lparr>exitCode = 0, stdout = ''{}'', stderr = []\<rparr>"
    using assms(2) by (rule getDvd_script_absent)
  have b: "execute s rs (getDvdTemplate_script path ip) = Inr \<lparr>exitCode = 0, stdout = ''{}'', stderr = []\<rparr>"
    using assms(1) a by (simp add: execute_def)
  have c: "runWithResult s payload rs getDvdTemplate (getDvdArgs path ip) zero_Dvd = (zero_Dvd, None)"
    by (simp add: runWithResult_def b decode_empty_object)
  have d: "ClientConfig_GetDvd \<lparr>WinRmClient = spec_WinRmClient s payload\<rparr> rs path ip
            = ((zero_Dvd, None), rs @ [Run_ScriptWithResult getDvdTemplate (getDvdArgs path ip)])"
    by (simp add: ClientConfig_GetDvd_def spec_WinRmClient_def c)
  have e: "decode payload [] = Inr zero_Dvd" by (simp add: decode_blank)
  have z: "Dvd_Path zero_Dvd = []" "Dvd_Ip zero_Dvd = []" by (simp_all add: zero_Dvd_def)
  show ?thesis by (intro conjI) (rule a decode_empty_object e d z)+
qed

theorem C5_get_absent_dvd_witness:
  "transport_error example_Session [] = None
   \<and> \<not> Test_Path (host example_Session []) ''x.iso''
   \<and> ClientConfig_GetDvd \<lparr>WinRmClient = spec_WinRmClient example_Session (\<lambda>out. None)\<rparr> [] ''x.iso'' ''10.0.0.1''
        = ((zero_Dvd, None), [Run_ScriptWithResult getDvdTemplate (getDvdArgs ''x.iso'' ''10.0.0.1'')])"
proof -
  have t: "transport_error example_Session [] = None" by (simp add: example_Session_def)
  have n: "\<not> Test_Path (host example_Session []) ''x.iso''"
    by (simp add: example_Session_def example_host_def)
  from C5_get_absent_dvd [OF t n, of "''10.0.0.1''" "\<lambda>out. None"]
  have "ClientConfig_GetDvd \<lparr>WinRmClient = spec_WinRmClient example_Session (\<lambda>out. None)\<rparr> [] ''x.iso'' ''10.0.0.1''
        = ((zero_Dvd, None), [] @ [Run_ScriptWithResult getDvdTemplate (getDvdArgs ''x.iso'' ''10.0.0.1'')])"
    by blast
  note g = this [unfolded append_Nil]
  show ?thesis by (intro conjI) (rule t n g)+
qed

subsection \<open>Which runner each DVD operation uses\<close>

text \<open>The two runners of the specification's engine, on the three templates.\<close>

lemma runFireAndForget_create:
  "runFireAndForget s rs createDvdTemplate (createDvdArgs path ip) =
     (case transport_error s rs of
        Some e \<Rightarrow> Some e
      | None \<Rightarrow>
          if exitCode (createDvd_result (host s rs) path ip) \<noteq> 0
          then Some (GoError RemoteScriptFailure (stderr (createDvd_result (host s rs) path ip)))
          else None)"
  by (simp add: runFireAndForget_def execute_def split: option.splits)

lemma runFireAndForget_delete:
  "runFireAndForget s rs deleteDvdTemplate (deleteDvdArgs path) =
     (case transport_error s rs of
        Some e \<Rightarrow> Some e
      | None \<Rightarrow>
          if exitCode (deleteDvd_result (host s rs) path) \<noteq> 0
          then Some (GoError RemoteScriptFailure (stderr (deleteDvd_result (host s rs) path)))
          else None)"
  by (simp add: runFireAndForget_def execute_def split: option.splits)

lemma getDvd_script_streams:
  "exitCode (getDvdTemplate_script path ip rh) = 0" "stderr (getDvdTemplate_script path ip rh) = []"
  by (simp_all add: getDvdTemplate_script_def)

lemma runWithResult_get:
  "runWithResult s payload rs getDvdTemplate (getDvdArgs path ip) target =
     (case transport_error s rs of
        Some e \<Rightarrow> (target, Some e)
      | None \<Rightarrow>
          (case decode payload (stdout (getDvdTemplate_script path ip (host s rs))) of
             Inl e \<Rightarrow> (target, Some e)
           | Inr v \<Rightarrow> (v, None)))"
  by (simp add: runWithResult_def execute_def getDvd_script_streams split: option.splits)

text \<open>
  Claim C8. Whatever the two runners do, \<open>CreateDvd\<close> and \<open>DeleteDvd\<close> are one run of
  the fire-and-forget runner, on their template and arguments, and return its error
  value and nothing else; \<open>GetDvd\<close> is one run of the result-bearing runner on the
  lookup template, with the zero \<open>Dvd\<close> as target, and returns what this runner left in
  the target together with its error. On the engine of the specification, what
  \<open>CreateDvd\<close> and \<open>DeleteDvd\<close> return is the transport's error, or a remote script
  failure for a non-zero exit code, or no error: the captured output and the decoder
  play no part; what \<open>GetDvd\<close> returns, when the transport does not fail, is the captured
  output of the lookup script decoded into a \<open>Dvd\<close>, or the decoder's error.
\<close>

theorem C8_dvd_runners:
  "ClientConfig_CreateDvd c rs path ip
      = (RunFireAndForgetScript (WinRmClient c) rs createDvdTemplate (createDvdArgs path ip),
         rs @ [Run_FireAndForgetScript createDvdTemplate (createDvdArgs path ip)])
   \<and> ClientConfig_DeleteDvd c rs path
      = (RunFireAndForgetScript (WinRmClient c) rs deleteDvdTemplate (deleteDvdArgs path),
         rs @ [Run_FireAndForgetScript deleteDvdTemplate (deleteDvdArgs path)])
   \<and> ClientConfig_GetDvd c rs path ip
      = (RunScriptWithResult (WinRmClient c) rs getDvdTemplate (getDvdArgs path ip) zero_Dvd,
         rs @ [Run_ScriptWithResult getDvdTemplate (getDvdArgs path ip)])
   \<and> ClientConfig_CreateDvd (c\<lparr>WinRmClient := (WinRmClient c)\<lparr>RunScriptWithResult := f\<rparr>\<rparr>) rs path ip
      = ClientConfig_CreateDvd c rs path ip
   \<and> ClientConfig_DeleteDvd (c\<lparr>WinRmClient := (WinRmClient c)\<lparr>RunScriptWithResult := f\<rparr>\<rparr>) rs path
      = ClientConfig_DeleteDvd c rs path
   \<and> ClientConfig_GetDvd (c\<lparr>WinRmClient := (WinRmClient c)\<lparr>RunFireAndForgetScript := g\<rparr>\<rparr>) rs path ip
      = ClientConfig_GetDvd c rs path ip
   \<and> ClientConfig_CreateDvd \<lparr>WinRmClient = spec_WinRmClient s payload\<rparr> rs path ip
      = (case transport_error s rs of
           Some e \<Rightarrow> Some e
         | None \<Rightarrow>
             if exitCode (createDvd_result (host s rs) path ip) \<noteq> 0
             then Some (GoError RemoteScriptFailure (stderr (createDvd_result (host s rs) path ip)))
             else None,
         rs @ [Run_FireAndForgetScript createDvdTemplate (createDvdArgs path ip)])
   \<and> ClientConfig_DeleteDvd \<lparr>WinRmClient = spec_WinRmClient s payload\<rparr> rs path
      = (case transport_error s rs of
           Some e \<Rightarrow> Some e
         | None \<Rightarrow>
             if exitCode (deleteDvd_result (host s rs) path) \<noteq> 0
             then Some (GoError RemoteScriptFailure (stderr (deleteDvd_result (host s rs) path)))
             else None,
         rs @ [Run_FireAndForgetScript deleteDvdTemplate (deleteDvdArgs path)])
   \<and> ClientConfig_GetDvd \<lparr>WinRmClient = spec_WinRmClient s payload\<rparr> rs path ip
      = (case transport_error s rs of
           Some e \<Rightarrow> (zero_Dvd, Some e)
         | None \<Rightarrow>
             (case decode payload (stdout (getDvdTemplate_script path ip (host s rs))) of
                Inl e \<Rightarrow> (zero_Dvd, Some e)
              | Inr v \<Rightarrow> (v, None)),
         rs @ [Run_ScriptWithResult getDvdTemplate (getDvdArgs path ip)])"
  by (simp add: ClientConfig_CreateDvd_def ClientConfig_DeleteDvd_def ClientConfig_GetDvd_def
        spec_WinRmClient_def runFireAndForget_create runFireAndForget_delete runWithResult_get)

lemma example_decode:
  "decode example_payload ''{...}'' = Inr \<lparr>Dvd_Path = ''c.iso'', Dvd_Ip = ''10.0.0.1''\<rparr>"
  by code_simp

lemma example_decode_malformed: "decode (\<lambda>out. None) ''{...}'' = Inl (GoError DecodeFailure ''{...}'')"
  by (simp add: decode_def is_space_def)

theorem C8_dvd_runners_witness:
  "transport_error example_Session [] = None
   \<and> stdout (getDvdTemplate_script ''c.iso'' ''10.0.0.1'' (host example_Session [])) = ''{...}''
   \<and> ClientConfig_GetDvd \<lparr>WinRmClient = spec_WinRmClient example_Session example_payload\<rparr> [] ''c.iso'' ''10.0.0.1''
      = ((\<lparr>Dvd_Path = ''c.iso'', Dvd_Ip = ''10.0.0.1''\<rparr>, None),
         [Run_ScriptWithResult getDvdTemplate (getDvdArgs ''c.iso'' ''10.0.0.1'')])
   \<and> ClientConfig_GetDvd \<lparr>WinRmClient = spec_WinRmClient example_Session (\<lambda>out. None)\<rparr> [] ''c.iso'' ''10.0.0.1''
      = ((zero_Dvd, Some (GoError DecodeFailure ''{...}'')),
         [Run_ScriptWithResult getDvdTemplate (getDvdArgs ''c.iso'' ''10.0.0.1'')])
   \<and> stdout (createDvd_result (host example_Session []) ''c.iso'' ''10.0.0.1'') = ''created''
   \<and> ClientConfig_CreateDvd \<lparr>WinRmClient = spec_WinRmClient example_Session (\<lambda>out. None)\<rparr> [] ''c.iso'' ''10.0.0.1''
      = (None, [Run_FireAndForgetScript createDvdTemplate (createDvdArgs ''c.iso'' ''10.0.0.1'')])
   \<and> ClientConfig_DeleteDvd \<lparr>WinRmClient = spec_WinRmClient example_Session (\<lambda>out. None)\<rparr> [] ''c.iso''
      = (None, [Run_FireAndForgetScript deleteDvdTemplate (deleteDvdArgs ''c.iso'')])"
proof -
  have t: "transport_error example_Session [] = None" by (simp add: example_Session_def)
  have o: "stdout (getDvdTemplate_script ''c.iso'' ''10.0.0.1'' (host example_Session [])) = ''{...}''"
    by (simp add: getDvdTemplate_script_def example_Session_def example_host_def)
  have cr: "stdout (createDvd_result (host example_Session []) ''c.iso'' ''10.0.0.1'') = ''created''"
    "exitCode (createDvd_result (host example_Session []) ''c.iso'' ''10.0.0.1'') = 0"
    "exitCode (deleteDvd_result (host example_Session []) ''c.iso'') = 0"
    by (simp_all add: example_Session_def example_host_def)
  note th1 = C8_dvd_runners [of _ "[]" "''c.iso''" "''10.0.0.1''" _ _ example_Session example_payload]
  note th2 = C8_dvd_runners [of _ "[]" "''c.iso''" "''10.0.0.1''" _ _ example_Session "\<lambda>out. None"]
  note get1 = th1 [THEN conjunct2, THEN conjunct2, THEN conjunct2, THEN conjunct2, THEN conjunct2,
      THEN conjunct2, THEN conjunct2, THEN conjunct2]
  note get2 = th2 [THEN conjunct2, THEN conjunct2, THEN conjunct2, THEN conjunct2, THEN conjunct2,
      THEN conjunct2, THEN conjunct2, THEN conjunct2]
  note create2 = th2 [THEN conjunct2, THEN conjunct2, THEN conjunct2, THEN conjunct2, THEN conjunct2,
      THEN conjunct2, THEN conjunct1]
  note delete2 = th2 [THEN conjunct2, THEN conjunct2, THEN conjunct2, THEN conjunct2, THEN conjunct2,
      THEN conjunct2, THEN conjunct2, THEN conjunct1]
  from get1 have g1: "ClientConfig_GetDvd \<lparr>WinRmClient = spec_WinRmClient example_Session example_payload\<rparr> []
        ''c.iso'' ''10.0.0.1''
      = ((\<lparr>Dvd_Path = ''c.iso'', Dvd_Ip = ''10.0.0.1''\<rparr>, None),
         [Run_ScriptWithResult getDvdTemplate (getDvdArgs ''c.iso'' ''10.0.0.1'')])"
    by (simp add: t o example_decode)
  from get2 have g2: "ClientConfig_GetDvd \<lparr>WinRmClient = spec_WinRmClient example_Session (\<lambda>out. None)\<rparr> []
        ''c.iso'' ''10.0.0.1''
      = ((zero_Dvd, Some (GoError DecodeFailure ''{...}'')),
         [Run_ScriptWithResult getDvdTemplate (getDvdArgs ''c.iso'' ''10.0.0.1'')])"
    by (simp add: t o example_decode_malformed)
  from create2 have c1: "ClientConfig_CreateDvd \<lparr>WinRmClient = spec_WinRmClient example_Session (\<lambda>out. None)\<rparr> []
        ''c.iso'' ''10.0.0.1''
      = (None, [Run_FireAndForgetScript createDvdTemplate (createDvdArgs ''c.iso'' ''10.0.0.1'')])"
    by (simp add: t cr)
  from delete2 have c2: "ClientConfig_DeleteDvd \<lparr>WinRmClient = spec_WinRmClient example_Session (\<lambda>out. None)\<rparr> []
        ''c.iso''
      = (None, [Run_FireAndForgetScript deleteDvdTemplate (deleteDvdArgs ''c.iso'')])"
    by (simp add: t cr)
  show ?thesis by (intro conjI) (rule t o g1 g2 cr(1) c1 c2)+
qed

end
